theory Spec2Isabelle
  imports
    Complex_Main
    "HOL-Library.Char_ord"
    "HOL-Library.List_Lexorder"
    "HOL-Library.Monad_Syntax"
    "HOL-Library.State_Monad"
begin

section \<open>The import/export intelligence module\<close>

text \<open>
  A shallow embedding of the Python sources \<^verbatim>\<open>utils.py\<close>, \<^verbatim>\<open>models.py\<close> and
  \<^verbatim>\<open>services.py\<close>. Strings are \<^typ>\<open>string\<close>, Python's \<^verbatim>\<open>None\<close> is \<^const>\<open>None\<close>,
  Python \<^verbatim>\<open>float\<close> values are rationals (rounding of the binary representation is
  not modelled), a raised exception is the left injection of a sum. The collaborators
  the sources call but do not define (the language model, the web search, the
  interpreter's \<^verbatim>\<open>hash\<close>, \<^verbatim>\<open>urlparse\<close>, the pseudo-random generator, number
  formatting) are arguments of the functions that use them.
\<close>

subsection \<open>utils.py: the country normalizer\<close>

text \<open>
  \<^verbatim>\<open>str.lower\<close> on the characters of \<^typ>\<open>char\<close>: the letters A to Z are mapped to
  a to z and every other character is kept. The keys of the alias table are lower-case
  ASCII words, so nothing else of \<^verbatim>\<open>str.lower\<close> decides a lookup.
\<close>

definition upper_to_lower :: "(char \<times> char) list" where
  "upper_to_lower = zip ''ABCDEFGHIJKLMNOPQRSTUVWXYZ'' ''abcdefghijklmnopqrstuvwxyz''"

definition lower_char :: "char \<Rightarrow> char" where
  "lower_char c = (case map_of upper_to_lower c of Some l \<Rightarrow> l | None \<Rightarrow> c)"

definition lower :: "string \<Rightarrow> string" where
  "lower s = map lower_char s"

definition country_map :: "(string \<times> string) list" where
  "country_map =
    [(''usa'', ''United States''),
     (''india'', ''India''),
     (''germany'', ''Germany''),
     (''uk'', ''United Kingdom''),
     (''united kingdom'', ''United Kingdom''),
     (''china'', ''China''),
     (''japan'', ''Japan''),
     (''eu'', ''European Union'')]"

text \<open>\<^verbatim>\<open>country_map.get(country_name.lower(), country_name)\<close>\<close>

definition normalize_country_name :: "string \<Rightarrow> string" where
  "normalize_country_name country_name =
     (case map_of country_map (lower country_name) of
        Some canonical \<Rightarrow> canonical
      | None \<Rightarrow> country_name)"

subsection \<open>models.py\<close>

record ParsedQuery =
  hsn_code :: "string option"
  product_name :: "string option"
  country :: "string option"
  intent :: "string option"
  keywords_list :: "string list"

text \<open>\<^verbatim>\<open>ParsedQuery()\<close>: every field at its default.\<close>

definition ParsedQuery_default :: ParsedQuery where
  "ParsedQuery_default =
     \<lparr>hsn_code = None, product_name = None, country = None, intent = None, keywords_list = []\<rparr>"

record TradeDataRecord =
  country :: "string option"
  volume_usd :: "rat option"
  volume_unit :: "rat option"
  unit :: "string option"
  year :: "int option"
  source :: "string option"
  hscode :: "string option"
  product_description :: "string option"
  hs_product_description :: "string option"
  shipper_name :: "string option"
  consignee_name :: "string option"
  std_quantity :: "rat option"
  std_unit :: "string option"
  country_of_destination :: "string option"
  package_type :: "string option"
  country_of_origin :: "string option"
  quantity :: "rat option"
  bill_of_lading_no :: "string option"
  consignee_address :: "string option"
  supplier_address :: "string option"
  container_teu :: "rat option"
  port_of_origin :: "string option"
  port_of_destination :: "string option"
  port_of_delivery :: "string option"
  gross_weight :: "rat option"
  measurement :: "string option"
  freight_term :: "string option"
  forwarder_name :: "string option"
  declarant_name :: "string option"
  notify_party_address :: "string option"
  declarant_name_2 :: "string option"
  marks_number :: "string option"
  contact_number_booking :: "string option"
  contact_email_booking :: "string option"

record Recommendation =
  title :: string
  description :: string

subsection \<open>Python values used by services.py\<close>

text \<open>Truthiness of an optional string: \<^verbatim>\<open>None\<close> and the empty string are false.\<close>

definition truthy :: "string option \<Rightarrow> bool" where
  "truthy v = (case v of None \<Rightarrow> False | Some s \<Rightarrow> s \<noteq> [])"

text \<open>\<^verbatim>\<open>v or d\<close> for an optional string \<^verbatim>\<open>v\<close> and a string \<^verbatim>\<open>d\<close>.\<close>

definition or_else :: "string option \<Rightarrow> string \<Rightarrow> string" where
  "or_else v d = (if truthy v then the v else d)"

text \<open>\<^verbatim>\<open>sub in s\<close> on strings.\<close>

fun starts_with :: "string \<Rightarrow> string \<Rightarrow> bool" where
  "starts_with [] s = True"
| "starts_with (a # as) [] = False"
| "starts_with (a # as) (c # cs) = (a = c \<and> starts_with as cs)"

fun contains :: "string \<Rightarrow> string \<Rightarrow> bool" where
  "contains sub [] = (sub = [])"
| "contains sub (c # cs) = (starts_with sub (c # cs) \<or> contains sub cs)"

text \<open>\<^verbatim>\<open>str(n)\<close> for an integer, as the f-strings format the random numbers.\<close>

fun str_nat :: "nat \<Rightarrow> string" where
  "str_nat n =
     (if n < 10 then [''0123456789'' ! n]
      else str_nat (n div 10) @ [''0123456789'' ! (n mod 10)])"

declare str_nat.simps [simp del]

definition str_int :: "int \<Rightarrow> string" where
  "str_int i = (if i < 0 then ''-'' @ str_nat (nat (- i)) else str_nat (nat i))"

text \<open>\<^verbatim>\<open>round(x, 2)\<close>: to the nearest hundredth, a tie to the even neighbour.\<close>

definition round_half_even :: "rat \<Rightarrow> int" where
  "round_half_even x =
     (let f = \<lfloor>x\<rfloor>; d = x - of_int f in
      if d < 1 / 2 then f
      else if 1 / 2 < d then f + 1
      else if even f then f else f + 1)"

definition round2 :: "rat \<Rightarrow> rat" where
  "round2 x = of_int (round_half_even (x * 100)) / 100"

text \<open>
  The module \<^verbatim>\<open>random\<close>: the generator is a stream of raw draws, and each call of
  \<^verbatim>\<open>random.choice\<close>, \<^verbatim>\<open>random.randint\<close> or \<^verbatim>\<open>random.random\<close> consumes the next one.
\<close>

type_synonym rng = "nat \<Rightarrow> nat"

definition next_draw :: "(rng, nat) state" where
  "next_draw = State (\<lambda>g. (g 0, \<lambda>i. g (Suc i)))"

definition random_choice :: "'a list \<Rightarrow> (rng, 'a) state" where
  "random_choice seq = do { d \<leftarrow> next_draw; State_Monad.return (seq ! (d mod length seq)) }"

definition random_randint :: "int \<Rightarrow> int \<Rightarrow> (rng, int) state" where
  "random_randint a b =
     do { d \<leftarrow> next_draw; State_Monad.return (a + int (d mod nat (b - a + 1))) }"

definition random_random :: "(rng, rat) state" where
  "random_random =
     do { d \<leftarrow> next_draw; State_Monad.return (of_nat (d mod 2 ^ 53) / 2 ^ 53) }"

subsection \<open>services.py: ActAgent, the record synthesizer\<close>

definition possible_partner_countries :: "string list" where
  "possible_partner_countries =
     [''USA'', ''Germany'', ''China'', ''Japan'', ''Brazil'', ''Canada'', ''Mexico'',
      ''France'', ''UK'']"

text \<open>
  \<^verbatim>\<open>normalize_country_name(parsed_query.country) if parsed_query.country else None\<close>
\<close>

definition target_reporting_country_normalized :: "ParsedQuery \<Rightarrow> string option" where
  "target_reporting_country_normalized parsed_query =
     (if truthy (ParsedQuery.country parsed_query)
      then Some (normalize_country_name (the (ParsedQuery.country parsed_query)))
      else None)"

text \<open>The test that makes the loop \<^verbatim>\<open>continue\<close>.\<close>

definition skip_partner :: "string option \<Rightarrow> string \<Rightarrow> bool" where
  "skip_partner target partner_country_name =
     (truthy target \<and> Some (normalize_country_name partner_country_name) = target)"

text \<open>
  \<^verbatim>\<open>volume = 100000 + (abs(hash(partner_country_name + query)) % 100000)\<close>, then
  scaled by the intent. \<^verbatim>\<open>hash\<close> is the interpreter's: the hash of a string is salted
  anew for every interpreter process, so the argument \<open>hash\<close> is the function of one process,
  and two processes are two arguments.
\<close>

definition hash_volume :: "(string \<Rightarrow> int) \<Rightarrow> string \<Rightarrow> string \<Rightarrow> int" where
  "hash_volume hash partner_country_name query =
     100000 + (\<bar>hash (partner_country_name @ query)\<bar> mod 100000)"

definition base_volume ::
  "(string \<Rightarrow> int) \<Rightarrow> string \<Rightarrow> string \<Rightarrow> string option \<Rightarrow> rat" where
  "base_volume hash partner_country_name query intent_val =
     (if intent_val = Some ''import''
      then of_int (hash_volume hash partner_country_name query) * (12 / 10)
      else if intent_val = Some ''export''
      then of_int (hash_volume hash partner_country_name query) * (8 / 10)
      else of_int (hash_volume hash partner_country_name query))"

text \<open>
  The body of the loop of \<^verbatim>\<open>_simulate_scrape_from_url\<close> for a partner that is not
  skipped: the dictionary \<^verbatim>\<open>record_data\<close>, its entries evaluated in the order of the
  source, and the record built from it. \<^verbatim>\<open>netloc\<close> stands for
  \<^verbatim>\<open>urlparse(url).netloc\<close> on the links that \<^verbatim>\<open>urlparse\<close> accepts; on a malformed link
  \<^verbatim>\<open>urlparse\<close> raises \<^verbatim>\<open>ValueError\<close> and no record is produced, a case this function
  leaves out: what follows speaks of the records that are produced.
\<close>

definition record_data ::
  "(string \<Rightarrow> int) \<Rightarrow> (string \<Rightarrow> string) \<Rightarrow> string \<Rightarrow> string \<Rightarrow> ParsedQuery \<Rightarrow> string
     \<Rightarrow> (rng, TradeDataRecord) state" where
  "record_data hash netloc url query parsed_query partner_country_name =
     (let hscode_val = hsn_code parsed_query;
          product_desc_val = product_name parsed_query;
          intent_val = intent parsed_query;
          target = target_reporting_country_normalized parsed_query;
          volume = base_volume hash partner_country_name query intent_val
      in do {
        unit_v \<leftarrow> random_choice [Some ''kg'', Some ''units'', Some ''tons'', None];
        hscode_r \<leftarrow> random_random;
        product_r \<leftarrow> random_random;
        hs_product_v \<leftarrow>
          random_choice [Some (''Description for HSN '' @ or_else hscode_val ''unknown''), None];
        shipper_n \<leftarrow> random_randint 100 999;
        shipper_v \<leftarrow> random_choice [Some (''Shipper_'' @ str_int shipper_n @ '' Inc.''), None];
        consignee_n \<leftarrow> random_randint 100 999;
        consignee_v \<leftarrow>
          random_choice [Some (''Consignee_'' @ str_int consignee_n @ '' Co.''), None];
        std_quantity_v \<leftarrow> random_choice [Some (round2 (volume / 5000)), None];
        std_unit_v \<leftarrow> random_choice [Some ''Pieces'', Some ''Pallets'', None];
        package_v \<leftarrow> random_choice [Some ''Cartons'', Some ''Pallets'', Some ''Boxes'', None];
        quantity_v \<leftarrow> random_choice [Some (round2 (volume / 1000)), None];
        bl_n \<leftarrow> random_randint 10000 99999;
        bl_v \<leftarrow> random_choice [Some (''BL-'' @ str_int bl_n), None];
        consignee_address_v \<leftarrow>
          random_choice [Some (''123 Main St, '' @ partner_country_name), None];
        supplier_address_v \<leftarrow>
          random_choice [Some (''456 Trade Rd, '' @ or_else target ''Global''), None];
        container_v \<leftarrow> random_choice [Some 1, Some 2, Some (5 / 10), None];
        port_origin_c \<leftarrow> random_choice [''A'', ''B'', ''C''];
        port_origin_v \<leftarrow> random_choice [Some (''Port '' @ port_origin_c), None];
        port_destination_c \<leftarrow> random_choice [''X'', ''Y'', ''Z''];
        port_destination_v \<leftarrow> random_choice [Some (''Port '' @ port_destination_c), None];
        port_delivery_c \<leftarrow> random_choice [''P'', ''Q'', ''R''];
        port_delivery_v \<leftarrow> random_choice [Some (''Port '' @ port_delivery_c), None];
        gross_weight_v \<leftarrow> random_choice [Some (round2 (volume / 100)), None];
        measurement_n \<leftarrow> random_randint 10 50;
        measurement_v \<leftarrow> random_choice [Some (str_int measurement_n @ '' CBM''), None];
        freight_v \<leftarrow> random_choice [Some ''FOB'', Some ''CIF'', Some ''EXW'', None];
        forwarder_c \<leftarrow> random_choice [''Logistics'', ''Global''];
        forwarder_v \<leftarrow> random_choice [Some (''Forwarder '' @ forwarder_c), None];
        declarant_n \<leftarrow> random_randint 1 5;
        declarant_v \<leftarrow> random_choice [Some (''Declarant '' @ str_int declarant_n), None];
        notify_v \<leftarrow>
          random_choice [Some (''789 Recv Blvd, '' @ partner_country_name), None];
        declarant2_n \<leftarrow> random_randint 6 10;
        declarant2_v \<leftarrow> random_choice [Some (''Declarant '' @ str_int declarant2_n), None];
        marks_n \<leftarrow> random_randint 1000 9999;
        marks_v \<leftarrow> random_choice [Some (''MN-'' @ str_int marks_n), None];
        contact_n \<leftarrow> random_randint 1000000000 9999999999;
        contact_number_v \<leftarrow> random_choice [Some (''+1'' @ str_int contact_n), None];
        email_n \<leftarrow> random_randint 1 10;
        email_v \<leftarrow>
          random_choice [Some (''booking'' @ str_int email_n @ ''@example.com''), None];
        State_Monad.return
          \<lparr>country = Some partner_country_name,
           volume_usd = Some volume,
           volume_unit = Some (volume / 100),
           unit = unit_v,
           year = Some 2023,
           source = Some (if netloc url = [] then ''Simulated Data Source'' else netloc url),
           hscode = (if 1 / 10 < hscode_r then hscode_val else None),
           product_description =
             (if 5 / 100 < product_r then product_desc_val
              else Some (''Generic '' @ or_else hscode_val ''Product'')),
           hs_product_description = hs_product_v,
           shipper_name = shipper_v,
           consignee_name = consignee_v,
           std_quantity = std_quantity_v,
           std_unit = std_unit_v,
           country_of_destination =
             (if intent_val = Some ''export'' then Some partner_country_name else target),
           package_type = package_v,
           country_of_origin =
             (if intent_val = Some ''export'' then target else Some partner_country_name),
           quantity = quantity_v,
           bill_of_lading_no = bl_v,
           consignee_address = consignee_address_v,
           supplier_address = supplier_address_v,
           container_teu = container_v,
           port_of_origin = port_origin_v,
           port_of_destination = port_destination_v,
           port_of_delivery = port_delivery_v,
           gross_weight = gross_weight_v,
           measurement = measurement_v,
           freight_term = freight_v,
           forwarder_name = forwarder_v,
           declarant_name = declarant_v,
           notify_party_address = notify_v,
           declarant_name_2 = declarant2_v,
           marks_number = marks_v,
           contact_number_booking = contact_number_v,
           contact_email_booking = email_v\<rparr>
      })"

text \<open>The loop over the partner countries, from the partner list that is left.\<close>

fun simulate_loop ::
  "(string \<Rightarrow> int) \<Rightarrow> (string \<Rightarrow> string) \<Rightarrow> string \<Rightarrow> string \<Rightarrow> ParsedQuery \<Rightarrow> string list
     \<Rightarrow> (rng, TradeDataRecord list) state" where
  "simulate_loop hash netloc url query parsed_query [] = State_Monad.return []"
| "simulate_loop hash netloc url query parsed_query (partner_country_name # rest) =
     (if skip_partner (target_reporting_country_normalized parsed_query) partner_country_name
      then simulate_loop hash netloc url query parsed_query rest
      else do {
        r \<leftarrow> record_data hash netloc url query parsed_query partner_country_name;
        dummy_data \<leftarrow> simulate_loop hash netloc url query parsed_query rest;
        State_Monad.return (r # dummy_data)
      })"

definition simulate_scrape_from_url ::
  "(string \<Rightarrow> int) \<Rightarrow> (string \<Rightarrow> string) \<Rightarrow> string \<Rightarrow> string \<Rightarrow> ParsedQuery
     \<Rightarrow> (rng, TradeDataRecord list) state" where
  "simulate_scrape_from_url hash netloc url query parsed_query =
     simulate_loop hash netloc url query parsed_query possible_partner_countries"

text \<open>
  \<^verbatim>\<open>fetch_data\<close>. A search result is a dictionary with string values, read with
  \<^verbatim>\<open>get\<close>; \<^verbatim>\<open>perform_google_search\<close> is the web search, an argument. The state is the
  agent's \<^verbatim>\<open>scraped_data_cache\<close> (the links already processed) and the generator.
\<close>

type_synonym search_result = "(string \<times> string) list"

fun fetch_results ::
  "(string \<Rightarrow> int) \<Rightarrow> (string \<Rightarrow> string) \<Rightarrow> string \<Rightarrow> ParsedQuery \<Rightarrow> search_result list
     \<Rightarrow> string set \<times> rng \<Rightarrow> TradeDataRecord list \<times> (string set \<times> rng)" where
  "fetch_results hash netloc query parsed_query [] st = ([], st)"
| "fetch_results hash netloc query parsed_query (result # results) (cache, g) =
     (let link = map_of result ''link'' in
      if truthy link \<and> \<not> contains ''pdf'' (lower (the link))
           \<and> \<not> contains ''excel'' (lower (the link))
      then
        if the link \<in> cache
        then fetch_results hash netloc query parsed_query results (cache, g)
        else
          (let (simulated_scrape, g') =
                 run_state
                   (simulate_scrape_from_url hash netloc (the link) query parsed_query) g
           in if simulated_scrape \<noteq> []
              then
                (let (more, st') =
                       fetch_results hash netloc query parsed_query results
                         (insert (the link) cache, g')
                 in (simulated_scrape @ more, st'))
              else fetch_results hash netloc query parsed_query results (cache, g'))
      else fetch_results hash netloc query parsed_query results (cache, g))"

fun fetch_queries ::
  "(string \<Rightarrow> int) \<Rightarrow> (string \<Rightarrow> string) \<Rightarrow> (string \<Rightarrow> search_result list) \<Rightarrow> string list
     \<Rightarrow> ParsedQuery \<Rightarrow> string set \<times> rng \<Rightarrow> TradeDataRecord list \<times> (string set \<times> rng)" where
  "fetch_queries hash netloc perform_google_search [] parsed_query st = ([], st)"
| "fetch_queries hash netloc perform_google_search (query # queries) parsed_query st =
     (let (found, st') =
            fetch_results hash netloc query parsed_query (perform_google_search query) st;
          (more, st'') =
            fetch_queries hash netloc perform_google_search queries parsed_query st'
      in (found @ more, st''))"

definition fetch_data ::
  "(string \<Rightarrow> int) \<Rightarrow> (string \<Rightarrow> string) \<Rightarrow> (string \<Rightarrow> search_result list) \<Rightarrow> string list
     \<Rightarrow> ParsedQuery \<Rightarrow> string set \<times> rng \<Rightarrow> TradeDataRecord list \<times> (string set \<times> rng)" where
  "fetch_data hash netloc perform_google_search search_queries parsed_query st =
     fetch_queries hash netloc perform_google_search search_queries parsed_query st"

subsection \<open>models.py: serialisation of a record\<close>

text \<open>The values a dumped record holds: strings, floats and integers.\<close>

datatype val = StrV string | FloatV rat | IntV int

type_synonym row = "(string \<times> val) list"

text \<open>
  \<^verbatim>\<open>TradeDataRecord.model_fields\<close>: the name of each field, its alias when it has one, and
  the field's value in a record.
\<close>

definition model_fields ::
  "(string \<times> string option \<times> (TradeDataRecord \<Rightarrow> val option)) list" where
  "model_fields =
     [(''country'', None, \<lambda>r. map_option StrV (country r)),
      (''volume_usd'', None, \<lambda>r. map_option FloatV (volume_usd r)),
      (''volume_unit'', None, \<lambda>r. map_option FloatV (volume_unit r)),
      (''unit'', None, \<lambda>r. map_option StrV (unit r)),
      (''year'', None, \<lambda>r. map_option IntV (year r)),
      (''source'', None, \<lambda>r. map_option StrV (source r)),
      (''hscode'', Some ''HS Code'', \<lambda>r. map_option StrV (hscode r)),
      (''product_description'', Some ''Product Description'', \<lambda>r. map_option StrV (product_description r)),
      (''hs_product_description'', Some ''HS Product Description'', \<lambda>r. map_option StrV (hs_product_description r)),
      (''shipper_name'', Some ''Shipper Name'', \<lambda>r. map_option StrV (shipper_name r)),
      (''consignee_name'', Some ''Consignee Name'', \<lambda>r. map_option StrV (consignee_name r)),
      (''std_quantity'', Some ''Standard Quantity'', \<lambda>r. map_option FloatV (std_quantity r)),
      (''std_unit'', Some ''Standard Unit'', \<lambda>r. map_option StrV (std_unit r)),
      (''country_of_destination'', Some ''Country of Destination'', \<lambda>r. map_option StrV (country_of_destination r)),
      (''package_type'', Some ''Package Type'', \<lambda>r. map_option StrV (package_type r)),
      (''country_of_origin'', Some ''Country of Origin'', \<lambda>r. map_option StrV (country_of_origin r)),
      (''quantity'', Some ''Quantity'', \<lambda>r. map_option FloatV (quantity r)),
      (''bill_of_lading_no'', Some ''Bill of Lading No'', \<lambda>r. map_option StrV (bill_of_lading_no r)),
      (''consignee_address'', Some ''Consignee Address'', \<lambda>r. map_option StrV (consignee_address r)),
      (''supplier_address'', Some ''Supplier Address'', \<lambda>r. map_option StrV (supplier_address r)),
      (''container_teu'', Some ''Container TEU'', \<lambda>r. map_option FloatV (container_teu r)),
      (''port_of_origin'', Some ''Port of Origin'', \<lambda>r. map_option StrV (port_of_origin r)),
      (''port_of_destination'', Some ''Port of Destination'', \<lambda>r. map_option StrV (port_of_destination r)),
      (''port_of_delivery'', Some ''Port of Delivery'', \<lambda>r. map_option StrV (port_of_delivery r)),
      (''gross_weight'', Some ''Gross Weight'', \<lambda>r. map_option FloatV (gross_weight r)),
      (''measurement'', Some ''Measurement'', \<lambda>r. map_option StrV (measurement r)),
      (''freight_term'', Some ''Freight Term'', \<lambda>r. map_option StrV (freight_term r)),
      (''forwarder_name'', Some ''Forwarder Name'', \<lambda>r. map_option StrV (forwarder_name r)),
      (''declarant_name'', Some ''Declarant Name'', \<lambda>r. map_option StrV (declarant_name r)),
      (''notify_party_address'', Some ''Notify Party Address'', \<lambda>r. map_option StrV (notify_party_address r)),
      (''declarant_name_2'', Some ''Declarant Name 2'', \<lambda>r. map_option StrV (declarant_name_2 r)),
      (''marks_number'', Some ''Marks Number'', \<lambda>r. map_option StrV (marks_number r)),
      (''contact_number_booking'', Some ''Contact Number Booking'', \<lambda>r. map_option StrV (contact_number_booking r)),
      (''contact_email_booking'', Some ''Contact Email Booking'', \<lambda>r. map_option StrV (contact_email_booking r))]"

text \<open>\<^verbatim>\<open>TradeDataRecord()\<close>: every field absent.\<close>

definition TradeDataRecord_default :: TradeDataRecord where
  "TradeDataRecord_default =
     \<lparr>country = None, volume_usd = None, volume_unit = None,
      unit = None, year = None, source = None,
      hscode = None, product_description = None, hs_product_description = None,
      shipper_name = None, consignee_name = None, std_quantity = None,
      std_unit = None, country_of_destination = None, package_type = None,
      country_of_origin = None, quantity = None, bill_of_lading_no = None,
      consignee_address = None, supplier_address = None, container_teu = None,
      port_of_origin = None, port_of_destination = None, port_of_delivery = None,
      gross_weight = None, measurement = None, freight_term = None,
      forwarder_name = None, declarant_name = None, notify_party_address = None,
      declarant_name_2 = None, marks_number = None, contact_number_booking = None,
      contact_email_booking = None\<rparr>"

text \<open>\<^verbatim>\<open>TradeDataRecord.model_fields[field].alias or field\<close>\<close>

definition field_label :: "string \<times> string option \<times> (TradeDataRecord \<Rightarrow> val option) \<Rightarrow> string" where
  "field_label f = (case fst (snd f) of Some a \<Rightarrow> a | None \<Rightarrow> fst f)"

text \<open>
  \<^verbatim>\<open>td.model_dump(exclude_none=True)\<close> and \<^verbatim>\<open>td.model_dump(by_alias=True, exclude_none=True)\<close>:
  the fields that are not \<^verbatim>\<open>None\<close>, in the order of the model, keyed by name or by label.
\<close>

definition model_dump :: "bool \<Rightarrow> TradeDataRecord \<Rightarrow> row" where
  "model_dump by_alias td =
     List.map_filter
       (\<lambda>f. map_option (Pair (if by_alias then field_label f else fst f)) (snd (snd f) td))
       model_fields"

subsection \<open>The part of pandas that services.py uses\<close>

text \<open>
  A frame built from a list of dictionaries: its columns are the keys in the order in
  which they are first seen, and a row has no value (NaN) in a column it has no key for.
\<close>

record DataFrame =
  columns :: "string list"
  rows :: "row list"

fun first_seen :: "'a list \<Rightarrow> 'a list \<Rightarrow> 'a list" where
  "first_seen seen [] = rev seen"
| "first_seen seen (x # xs) = (if x \<in> set seen then first_seen seen xs else first_seen (x # seen) xs)"

definition DataFrame_of :: "row list \<Rightarrow> DataFrame" where
  "DataFrame_of dicts = \<lparr>columns = first_seen [] (concat (map (map fst) dicts)), rows = dicts\<rparr>"

text \<open>\<^verbatim>\<open>df.empty\<close>: one of the two axes has length 0.\<close>

definition df_empty :: "DataFrame \<Rightarrow> bool" where
  "df_empty df = (columns df = [] \<or> rows df = [])"

text \<open>
  \<^verbatim>\<open>pd.to_numeric(..., errors='coerce').fillna(0)\<close> on one cell: a missing or
  non-numeric value is 0.
\<close>

fun to_numeric_fillna :: "val option \<Rightarrow> rat" where
  "to_numeric_fillna None = 0"
| "to_numeric_fillna (Some (FloatV x)) = x"
| "to_numeric_fillna (Some (IntV i)) = of_int i"
| "to_numeric_fillna (Some (StrV s)) = 0"

fun str_cell :: "val option \<Rightarrow> string option" where
  "str_cell (Some (StrV s)) = Some s"
| "str_cell v = None"

text \<open>
  \<^verbatim>\<open>df.groupby('country')['volume_usd'].sum()\<close>: the group keys are the countries of the
  rows that have one, sorted; each sum runs over the rows of its key.
\<close>

definition group_keys :: "DataFrame \<Rightarrow> string list" where
  "group_keys df =
     sort (remdups (List.map_filter (\<lambda>r. str_cell (map_of r ''country'')) (rows df)))"

definition group_sum :: "DataFrame \<Rightarrow> string \<Rightarrow> rat" where
  "group_sum df k =
     sum_list (map (\<lambda>r. to_numeric_fillna (map_of r ''volume_usd''))
                 (filter (\<lambda>r. str_cell (map_of r ''country'') = Some k) (rows df)))"

definition groupby_country_sum :: "DataFrame \<Rightarrow> (string \<times> rat) list" where
  "groupby_country_sum df = map (\<lambda>k. (k, group_sum df k)) (group_keys df)"

text \<open>
  \<^verbatim>\<open>Series.nlargest(n)\<close> with \<^verbatim>\<open>keep='first'\<close>: the \<open>n\<close> largest values in descending
  order, equal values in the order of the series.
\<close>

definition nlargest :: "nat \<Rightarrow> (string \<times> rat) list \<Rightarrow> (string \<times> rat) list" where
  "nlargest n series = take n (sort_key (\<lambda>kv. - snd kv) series)"

text \<open>\<^verbatim>\<open>Series.mode()\<close> on the values that are present: the most frequent ones, sorted.\<close>

definition series_mode :: "string list \<Rightarrow> string list" where
  "series_mode vals =
     (let most = fold max (map (count_list vals) vals) 0
      in sort (remdups (filter (\<lambda>v. count_list vals v = most) vals)))"

definition column_values :: "DataFrame \<Rightarrow> string \<Rightarrow> string list" where
  "column_values df c = List.map_filter (\<lambda>r. str_cell (map_of r c)) (rows df)"

text \<open>\<^verbatim>\<open>sep.join(parts)\<close>\<close>

fun join :: "string \<Rightarrow> string list \<Rightarrow> string" where
  "join sep [] = []"
| "join sep [x] = x"
| "join sep (x # y # zs) = x @ sep @ join sep (y # zs)"

subsection \<open>services.py: ActAgent, the recommendation aggregator\<close>

datatype error = KeyError string | TypeError

text \<open>
  The top-markets block. \<^verbatim>\<open>groupby('country')\<close> raises \<^verbatim>\<open>KeyError\<close> when the frame has
  no such column, and \<^verbatim>\<open>parsed_query.intent + (...)\<close> raises \<^verbatim>\<open>TypeError\<close> when the intent
  is \<^verbatim>\<open>None\<close>; neither is caught in \<^verbatim>\<open>generate_recommendations\<close>. \<open>fmt\<close> stands for the
  format \<^verbatim>\<open>{volume:,.2f}\<close>.
\<close>

definition top_markets ::
  "(rat \<Rightarrow> string) \<Rightarrow> DataFrame \<Rightarrow> ParsedQuery \<Rightarrow> error + Recommendation list" where
  "top_markets fmt df parsed_query =
     (if \<not> df_empty df \<and> ''volume_usd'' \<in> set (columns df)
      then
        if ''country'' \<notin> set (columns df) then Inl (KeyError ''country'')
        else
          (let top_countries = nlargest 3 (groupby_country_sum df) in
           if top_countries \<noteq> []
           then
             (case intent parsed_query of
                None \<Rightarrow> Inl TypeError
              | Some i \<Rightarrow>
                  (let intent_phrase = i @ (if i \<noteq> [] then ''ing'' else []) in
                   Inr [\<lparr>title = ''Top 3 '' @ intent_phrase @ '' Markets by Volume'',
                         description =
                           join '', '' (map (\<lambda>kv. fst kv @ '': $'' @ fmt (snd kv)) top_countries)\<rparr>]))
           else Inr [])
      else Inr [])"

text \<open>The blocks for \<^verbatim>\<open>freight_term\<close> and \<^verbatim>\<open>package_type\<close>.\<close>

definition modal_recommendation ::
  "DataFrame \<Rightarrow> string \<Rightarrow> string \<Rightarrow> string \<Rightarrow> Recommendation list" where
  "modal_recommendation df c rec_title prefix =
     (if c \<in> set (columns df) \<and> \<not> list_all (\<lambda>r. map_of r c = None) (rows df)
      then
        (let common = series_mode (column_values df c) in
         if common \<noteq> []
         then [\<lparr>title = rec_title, description = prefix @ hd common @ ''.''\<rparr>]
         else [])
      else [])"

text \<open>
  The language-model block, inside \<^verbatim>\<open>try\<close>: selecting the seven columns raises
  \<^verbatim>\<open>KeyError\<close> when one is missing, and every exception is caught; \<open>llm_recs\<close> is what the
  block appends when it gets that far.
\<close>

definition llm_columns :: "string list" where
  "llm_columns =
     [''country'', ''volume_usd'', ''product_description'', ''freight_term'', ''package_type'',
      ''shipper_name'', ''consignee_name'']"

definition llm_recommendations :: "DataFrame \<Rightarrow> Recommendation list \<Rightarrow> Recommendation list" where
  "llm_recommendations df llm_recs =
     (if list_all (\<lambda>c. c \<in> set (columns df)) llm_columns then llm_recs else [])"

definition generate_recommendations ::
  "(rat \<Rightarrow> string) \<Rightarrow> Recommendation list \<Rightarrow> TradeDataRecord list \<Rightarrow> ParsedQuery
     \<Rightarrow> error + Recommendation list" where
  "generate_recommendations fmt llm_recs trade_data parsed_query =
     (if trade_data = []
      then Inr [\<lparr>title = ''No Data'',
                 description =
                   ''No sufficient trade data found to generate specific recommendations.''\<rparr>]
      else
        (let df = DataFrame_of (map (model_dump False) trade_data) in
         case top_markets fmt df parsed_query of
           Inl e \<Rightarrow> Inl e
         | Inr top_recs \<Rightarrow>
             (let recommendations_list =
                    top_recs
                    @ modal_recommendation df ''freight_term'' ''Common Freight Terms''
                        ''Most frequently observed freight term: ''
                    @ modal_recommendation df ''package_type'' ''Typical Packaging''
                        ''Common packaging type: ''
                    @ llm_recommendations df llm_recs
              in if recommendations_list = []
                 then Inr [\<lparr>title = ''General Advice'',
                            description =
                              ''Further detailed analysis is required for specific recommendations.''\<rparr>]
                 else Inr recommendations_list)))"

subsection \<open>services.py: ActAgent, the report exporter\<close>

text \<open>
  \<^verbatim>\<open>export_to_excel\<close>, as the frame it hands to \<^verbatim>\<open>to_excel\<close>; writing the file is the
  serializer's work.
\<close>

definition export_to_excel :: "TradeDataRecord list \<Rightarrow> DataFrame" where
  "export_to_excel trade_data =
     (if trade_data = [] then \<lparr>columns = [], rows = []\<rparr>
      else
        (let df = DataFrame_of (map (model_dump True) trade_data) in
         if df_empty df \<and> trade_data \<noteq> []
         then \<lparr>columns = map field_label model_fields, rows = []\<rparr>
         else df))"

subsection \<open>services.py: PerceiveAgent\<close>

text \<open>The value \<^verbatim>\<open>json.loads\<close> returns.\<close>

datatype json =
  JNull | JBool bool | JNum rat | JStr string | JArr "json list" | JObj "(string \<times> json) list"

text \<open>
  Validation of one \<^verbatim>\<open>Optional[str]\<close> field by \<^verbatim>\<open>ParsedQuery(**parsed_data)\<close>: a missing key
  is the default, \<^verbatim>\<open>null\<close> is \<^verbatim>\<open>None\<close>, a string is itself, anything else is a validation
  error (the outer \<^const>\<open>None\<close>).
\<close>

fun optional_str :: "json option \<Rightarrow> string option option" where
  "optional_str None = Some None"
| "optional_str (Some JNull) = Some None"
| "optional_str (Some (JStr s)) = Some (Some s)"
| "optional_str (Some v) = None"

fun json_str :: "json \<Rightarrow> string option" where
  "json_str (JStr s) = Some s"
| "json_str v = None"

text \<open>The field \<^verbatim>\<open>keywords: List[str]\<close>, default \<^verbatim>\<open>[]\<close>.\<close>

fun str_list :: "json option \<Rightarrow> string list option" where
  "str_list None = Some []"
| "str_list (Some (JArr vs)) =
     (if list_all (\<lambda>v. json_str v \<noteq> None) vs then Some (map (\<lambda>v. the (json_str v)) vs) else None)"
| "str_list (Some v) = None"

text \<open>
  \<^verbatim>\<open>ParsedQuery(**parsed_data)\<close>; \<^const>\<open>None\<close> when it raises (the data is not a
  dictionary, or a field does not validate). Keys the model does not have are ignored.
\<close>

definition validate_ParsedQuery :: "json \<Rightarrow> ParsedQuery option" where
  "validate_ParsedQuery parsed_data =
     (case parsed_data of
        JObj kvs \<Rightarrow>
          (case (optional_str (map_of kvs ''hsn_code''), optional_str (map_of kvs ''product_name''),
                 optional_str (map_of kvs ''country''), optional_str (map_of kvs ''intent''),
                 str_list (map_of kvs ''keywords'')) of
             (Some h, Some p, Some c, Some i, Some k) \<Rightarrow>
               Some \<lparr>hsn_code = h, product_name = p, ParsedQuery.country = c, intent = i,
                     keywords_list = k\<rparr>
           | _ \<Rightarrow> None)
      | _ \<Rightarrow> None)"

text \<open>
  \<^verbatim>\<open>parse_query\<close>. \<open>chat\<close> is the call of the language model with the prompt built
  around the query: the content of its reply, or \<^const>\<open>None\<close> when the call raises;
  \<open>json_loads\<close> is \<^verbatim>\<open>json.loads\<close>, \<^const>\<open>None\<close> when it raises. Every exception ends in
  \<^verbatim>\<open>ParsedQuery()\<close>.
\<close>

definition parse_query ::
  "(string \<Rightarrow> string option) \<Rightarrow> (string \<Rightarrow> json option) \<Rightarrow> string \<Rightarrow> ParsedQuery" where
  "parse_query chat json_loads query =
     (case chat query of
        None \<Rightarrow> ParsedQuery_default
      | Some content \<Rightarrow>
          (case json_loads content of
             None \<Rightarrow> ParsedQuery_default
           | Some parsed_data \<Rightarrow>
               (case validate_ParsedQuery parsed_data of
                  None \<Rightarrow> ParsedQuery_default
                | Some parsed \<Rightarrow> parsed)))"

subsection \<open>Notions used in the statements, and sample inputs\<close>

text \<open>
  What the loop body fixes of a record for partner \<open>p\<close>, whatever the generator draws.
\<close>

definition synthesized :: "(string \<Rightarrow> int) \<Rightarrow> string \<Rightarrow> ParsedQuery \<Rightarrow> string \<Rightarrow> TradeDataRecord \<Rightarrow> bool" where
  "synthesized hash query pq p r =
     (country r = Some p
      \<and> volume_usd r = Some (base_volume hash p query (intent pq))
      \<and> country_of_destination r =
         (if intent pq = Some ''export'' then Some p else target_reporting_country_normalized pq)
      \<and> country_of_origin r =
         (if intent pq = Some ''export'' then target_reporting_country_normalized pq else Some p))"

definition sample_hash :: "string \<Rightarrow> int" where
  "sample_hash s = int (length s)"

text \<open>The hash function of two interpreter processes with different salts.\<close>

definition hash_first_process :: "string \<Rightarrow> int" where
  "hash_first_process s = int (length s)"

definition hash_second_process :: "string \<Rightarrow> int" where
  "hash_second_process s = int (length s) + 5"

definition sample_netloc :: "string \<Rightarrow> string" where
  "sample_netloc url = ''data.example.org''"

definition sample_rng :: rng where
  "sample_rng i = i"

definition sample_search :: "string \<Rightarrow> search_result list" where
  "sample_search q = [[(''title'', ''Trade statistics''), (''link'', ''https://data.example.org/trade'')]]"

definition query_usa_export :: ParsedQuery where
  "query_usa_export =
     \<lparr>hsn_code = Some ''8419'', product_name = None, ParsedQuery.country = Some ''USA'',
      intent = Some ''export'', keywords_list = []\<rparr>"

definition query_blank_export :: ParsedQuery where
  "query_blank_export =
     \<lparr>hsn_code = Some ''8419'', product_name = None, ParsedQuery.country = Some [],
      intent = Some ''export'', keywords_list = []\<rparr>"

definition query_germany_import :: ParsedQuery where
  "query_germany_import =
     \<lparr>hsn_code = Some ''9021'', product_name = None, ParsedQuery.country = Some ''Germany'',
      intent = Some ''import'', keywords_list = [''trends'']\<rparr>"

definition direction_ok :: "ParsedQuery \<Rightarrow> string \<Rightarrow> TradeDataRecord \<Rightarrow> bool" where
  "direction_ok pq C r =
     (country r \<noteq> None
      \<and> (intent pq = Some ''export'' \<longrightarrow>
           country_of_origin r = Some (normalize_country_name C)
           \<and> country_of_destination r = country r)
      \<and> (intent pq = Some ''import'' \<longrightarrow>
           country_of_origin r = country r
           \<and> country_of_destination r = Some (normalize_country_name C)))"

text \<open>The value of a field of the model in a record, \<^const>\<open>None\<close> when it is absent.\<close>

definition field_value ::
  "string \<times> string option \<times> (TradeDataRecord \<Rightarrow> val option) \<Rightarrow> TradeDataRecord \<Rightarrow> val option" where
  "field_value f td = snd (snd f) td"

text \<open>
  \<open>v\<close> is a most frequent value of \<open>vals\<close>, and the least one in the order of strings
  among the most frequent.
\<close>

definition least_mode :: "string \<Rightarrow> string list \<Rightarrow> bool" where
  "least_mode v vals =
     (v \<in> set vals
      \<and> (\<forall>w\<in>set vals. count_list vals w \<le> count_list vals v)
      \<and> (\<forall>w\<in>set vals. count_list vals w = count_list vals v \<longrightarrow> v \<le> w))"

definition sample_fmt :: "rat \<Rightarrow> string" where
  "sample_fmt v = str_int \<lfloor>v\<rfloor>"

definition record_usa :: TradeDataRecord where
  "record_usa = TradeDataRecord_default\<lparr>country := Some ''USA'', volume_usd := Some 1000\<rparr>"

definition record_volume_only :: TradeDataRecord where
  "record_volume_only = TradeDataRecord_default\<lparr>volume_usd := Some 1000\<rparr>"

definition record_fob :: TradeDataRecord where
  "record_fob = TradeDataRecord_default\<lparr>country := Some ''USA'', freight_term := Some ''FOB''\<rparr>"

definition record_cif :: TradeDataRecord where
  "record_cif = TradeDataRecord_default\<lparr>country := Some ''China'', freight_term := Some ''CIF''\<rparr>"

definition query_no_intent :: ParsedQuery where
  "query_no_intent = ParsedQuery_default\<lparr>hsn_code := Some ''8419''\<rparr>"

definition query_import :: ParsedQuery where
  "query_import = ParsedQuery_default\<lparr>hsn_code := Some ''8419'', intent := Some ''import''\<rparr>"

definition reply_both :: "string \<Rightarrow> string option" where
  "reply_both query = Some ''reply''"

definition loads_both :: "string \<Rightarrow> json option" where
  "loads_both content = Some (JObj [(''intent'', JStr ''both'')])"

definition sample_shipments :: "TradeDataRecord list" where
  "sample_shipments =
     [TradeDataRecord_default\<lparr>country := Some ''USA'', volume_usd := Some 1000,
        package_type := Some ''Cartons'', freight_term := Some ''FOB''\<rparr>,
      TradeDataRecord_default\<lparr>country := Some ''China'', volume_usd := Some 500,
        package_type := Some ''Boxes'', freight_term := Some ''CIF''\<rparr>,
      TradeDataRecord_default\<lparr>country := Some ''China'', volume_usd := Some 250,
        package_type := Some ''Cartons'', freight_term := Some ''CIF''\<rparr>]"

section \<open>Properties\<close>

subsection \<open>The country normalizer\<close>

lemmas normalize_simps =
  normalize_country_name_def country_map_def lower_def lower_char_def upper_to_lower_def

lemma canonical_names_fixed:
  "normalize_country_name ''United States'' = ''United States''"
  "normalize_country_name ''India'' = ''India''"
  "normalize_country_name ''Germany'' = ''Germany''"
  "normalize_country_name ''United Kingdom'' = ''United Kingdom''"
  "normalize_country_name ''China'' = ''China''"
  "normalize_country_name ''Japan'' = ''Japan''"
  "normalize_country_name ''European Union'' = ''European Union''"
  by (simp_all add: normalize_simps)

lemma country_map_value_fixed:
  assumes "map_of country_map k = Some c"
  shows "normalize_country_name c = c"
proof -
  from assms have "(k, c) \<in> set country_map"
    by (rule map_of_SomeD)
  then have "c \<in> {''United States'', ''India'', ''Germany'', ''United Kingdom'',
                  ''China'', ''Japan'', ''European Union''}"
    by (auto simp add: country_map_def)
  then show ?thesis
    using canonical_names_fixed by auto
qed

lemma normalize_twice:
  "normalize_country_name (normalize_country_name s) = normalize_country_name s"
proof (cases "map_of country_map (lower s)")
  case None
  then show ?thesis
    by (simp add: normalize_country_name_def)
next
  case (Some c)
  then have "normalize_country_name s = c"
    by (simp add: normalize_country_name_def)
  with country_map_value_fixed [OF Some] show ?thesis
    by simp
qed

text \<open>
  C10. The country normalizer is idempotent: normalizing a normalized name gives the same
  name again, because every canonical name of the alias table maps to itself and an
  unmapped string is returned unchanged.
\<close>

theorem normalize_country_name_idempotent:
  "normalize_country_name (normalize_country_name s) = normalize_country_name s"
  by (rule normalize_twice)

subsection \<open>The record synthesizer\<close>

lemma pred_state_return: "P x \<Longrightarrow> pred_state P (State_Monad.return x)"
  by (rule pred_stateI) simp

lemma record_data_pred:
  "pred_state (\<lambda>r. country r = Some p
      \<and> volume_usd r = Some (base_volume hash p query (intent pq))
      \<and> country_of_destination r =
         (if intent pq = Some ''export'' then Some p else target_reporting_country_normalized pq)
      \<and> country_of_origin r =
         (if intent pq = Some ''export'' then target_reporting_country_normalized pq else Some p))
     (record_data hash netloc url query pq p)"
  unfolding record_data_def Let_def
  apply (intro pred_state_return bind_predI pred_stateI)
  apply (simp (no_asm))
  done

lemmas record_data_fields = pred_state_run_state [OF record_data_pred]

lemma simulate_loop_shape:
  "list_all2 (synthesized hash query pq)
     (filter (\<lambda>p. \<not> skip_partner (target_reporting_country_normalized pq) p) ps)
     (fst (run_state (simulate_loop hash netloc url query pq ps) g))"
proof (induction ps arbitrary: g)
  case Nil
  show ?case by simp
next
  case (Cons p ps)
  show ?case
    using Cons.IH record_data_fields
    by (simp add: case_prod_beta synthesized_def)
qed

lemma fetch_results_from_simulate:
  assumes "\<And>url g. list_all P (fst (run_state (simulate_scrape_from_url hash netloc url query pq) g))"
  shows "list_all P (fst (fetch_results hash netloc query pq results st))"
proof (induction results arbitrary: st)
  case Nil
  show ?case by simp
next
  case (Cons result results)
  obtain cache g where st: "st = (cache, g)" by (cases st)
  show ?case
    unfolding st
    using Cons.IH assms
    by (simp add: Let_def case_prod_beta)
qed

lemma fetch_queries_from_simulate:
  assumes "\<And>url query g. list_all P (fst (run_state (simulate_scrape_from_url hash netloc url query pq) g))"
  shows "list_all P (fst (fetch_queries hash netloc search queries pq st))"
proof (induction queries arbitrary: st)
  case Nil
  show ?case by simp
next
  case (Cons query queries)
  show ?case
    using Cons.IH fetch_results_from_simulate [of P hash netloc query pq] assms
    by (simp add: Let_def case_prod_beta)
qed

lemma list_all2_right: "list_all2 Q xs ys \<Longrightarrow> y \<in> set ys \<Longrightarrow> \<exists>x\<in>set xs. Q x y"
  by (induction rule: list_all2_induct) auto

lemma list_all2_map_eq: "list_all2 (\<lambda>x y. f y = h x) xs ys \<Longrightarrow> map f ys = map h xs"
  by (induction rule: list_all2_induct) auto

lemma simulate_record:
  assumes "r \<in> set (fst (run_state (simulate_scrape_from_url hash netloc url query pq) g))"
  shows "\<exists>p\<in>set possible_partner_countries.
           \<not> skip_partner (target_reporting_country_normalized pq) p \<and> synthesized hash query pq p r"
proof -
  from assms have
    "r \<in> set (fst (run_state
        (simulate_loop hash netloc url query pq possible_partner_countries) g))"
    by (simp add: simulate_scrape_from_url_def)
  with simulate_loop_shape have
    "\<exists>p\<in>set (filter (\<lambda>p. \<not> skip_partner (target_reporting_country_normalized pq) p)
         possible_partner_countries). synthesized hash query pq p r"
    by (rule list_all2_right)
  then show ?thesis
    by auto
qed

lemma simulate_countries:
  "map country (fst (run_state (simulate_scrape_from_url hash netloc url query pq) g)) =
     map Some (filter (\<lambda>p. \<not> skip_partner (target_reporting_country_normalized pq) p)
       possible_partner_countries)"
  unfolding simulate_scrape_from_url_def
  by (rule list_all2_map_eq, rule list_all2_mono [OF simulate_loop_shape])
     (simp add: synthesized_def)

lemma simulate_volumes:
  "map volume_usd (fst (run_state (simulate_scrape_from_url hash netloc url query pq) g)) =
     map (\<lambda>p. Some (base_volume hash p query (intent pq)))
       (filter (\<lambda>p. \<not> skip_partner (target_reporting_country_normalized pq) p)
       possible_partner_countries)"
  unfolding simulate_scrape_from_url_def
  by (rule list_all2_map_eq, rule list_all2_mono [OF simulate_loop_shape])
     (simp add: synthesized_def)

lemma partner_nonempty: "p \<in> set possible_partner_countries \<Longrightarrow> p \<noteq> []"
  by (auto simp add: possible_partner_countries_def)

lemma normalize_empty: "normalize_country_name [] = []"
  by (simp add: normalize_simps)

lemma retained_partner_differs:
  assumes "ParsedQuery.country pq = Some C"
    and "p \<in> set possible_partner_countries"
    and "\<not> skip_partner (target_reporting_country_normalized pq) p"
  shows "p \<noteq> normalize_country_name C"
proof
  assume eq: "p = normalize_country_name C"
  have ne: "p \<noteq> []" using assms(2) by (rule partner_nonempty)
  show False
  proof (cases "C = []")
    case True
    with eq ne show False by (simp add: normalize_empty)
  next
    case False
    with assms(1) have "target_reporting_country_normalized pq = Some (normalize_country_name C)"
      by (simp add: target_reporting_country_normalized_def truthy_def)
    with assms(3) eq ne show False
      by (simp add: skip_partner_def truthy_def normalize_twice)
  qed
qed

lemma simulate_partner_differs:
  assumes "ParsedQuery.country pq = Some C"
  shows "list_all (\<lambda>r. country r \<noteq> Some (normalize_country_name C))
           (fst (run_state (simulate_scrape_from_url hash netloc url query pq) g))"
  unfolding list_all_iff
proof
  fix r
  assume "r \<in> set (fst (run_state (simulate_scrape_from_url hash netloc url query pq) g))"
  then obtain p where "p \<in> set possible_partner_countries"
    and "\<not> skip_partner (target_reporting_country_normalized pq) p"
    and "synthesized hash query pq p r"
    using simulate_record by blast
  with retained_partner_differs [OF assms] show "country r \<noteq> Some (normalize_country_name C)"
    by (simp add: synthesized_def)
qed

text \<open>
  C1. When the query names a country \<open>C\<close>, no record synthesized for that query, by
  \<^verbatim>\<open>_simulate_scrape_from_url\<close> or by \<^verbatim>\<open>fetch_data\<close>, has the normalized form of \<open>C\<close> as
  its partner country.
\<close>

theorem partner_never_reporting_country:
  assumes "ParsedQuery.country pq = Some C"
  shows "(\<forall>r\<in>set (fst (run_state (simulate_scrape_from_url hash netloc url query pq) g)).
            country r \<noteq> Some (normalize_country_name C))
       \<and> (\<forall>r\<in>set (fst (fetch_data hash netloc search queries pq st)).
            country r \<noteq> Some (normalize_country_name C))"
  using simulate_partner_differs [OF assms, of hash netloc]
    fetch_queries_from_simulate [of "\<lambda>r. country r \<noteq> Some (normalize_country_name C)" hash netloc pq search queries st]
  by (simp add: fetch_data_def list_all_iff)

lemma retained_usa:
  "filter (\<lambda>p. \<not> skip_partner (target_reporting_country_normalized query_usa_export) p)
       possible_partner_countries
   = [''Germany'', ''China'', ''Japan'', ''Brazil'', ''Canada'', ''Mexico'', ''France'', ''UK'']"
  by (simp add: query_usa_export_def target_reporting_country_normalized_def truthy_def
      skip_partner_def possible_partner_countries_def normalize_simps)

lemma fetch_sample:
  "fst (fetch_data sample_hash sample_netloc sample_search [''HSN 8419 export data''] query_usa_export ({}, sample_rng))
   = fst (run_state (simulate_scrape_from_url sample_hash sample_netloc ''https://data.example.org/trade''
            ''HSN 8419 export data'' query_usa_export) sample_rng)"
proof -
  have "fst (run_state (simulate_scrape_from_url sample_hash sample_netloc ''https://data.example.org/trade''
            ''HSN 8419 export data'' query_usa_export) sample_rng) \<noteq> []"
    using simulate_countries [of sample_hash sample_netloc "''https://data.example.org/trade''"
            "''HSN 8419 export data''" query_usa_export sample_rng]
    by (auto simp add: retained_usa)
  then show ?thesis
    by (simp add: fetch_data_def sample_search_def truthy_def lower_def lower_char_def upper_to_lower_def
        Let_def case_prod_beta)
qed

theorem partner_never_reporting_country_witness:
  "ParsedQuery.country query_usa_export = Some ''USA''
   \<and> map country (fst (run_state (simulate_scrape_from_url sample_hash sample_netloc
         ''https://data.example.org/trade'' ''HSN 8419 export data'' query_usa_export) sample_rng))
     = [Some ''Germany'', Some ''China'', Some ''Japan'', Some ''Brazil'', Some ''Canada'',
        Some ''Mexico'', Some ''France'', Some ''UK'']
   \<and> list_all (\<lambda>r. country r \<noteq> Some ''United States'')
         (fst (run_state (simulate_scrape_from_url sample_hash sample_netloc
            ''https://data.example.org/trade'' ''HSN 8419 export data'' query_usa_export) sample_rng))
   \<and> list_all (\<lambda>r. country r \<noteq> Some ''United States'')
         (fst (fetch_data sample_hash sample_netloc sample_search [''HSN 8419 export data'']
            query_usa_export ({}, sample_rng)))"
proof -
  have c: "ParsedQuery.country query_usa_export = Some ''USA''"
    by (simp add: query_usa_export_def)
  have n: "normalize_country_name ''USA'' = ''United States''"
    by (simp add: normalize_simps)
  show ?thesis
    using partner_never_reporting_country [OF c, of sample_hash sample_netloc
        "''https://data.example.org/trade''" "''HSN 8419 export data''" sample_rng sample_search
        "[''HSN 8419 export data'']" "({}, sample_rng)"]
      simulate_countries [of sample_hash sample_netloc "''https://data.example.org/trade''"
        "''HSN 8419 export data''" query_usa_export sample_rng]
    by (simp only: c n retained_usa list.map simp_thms list_all_iff)
qed

lemma simulate_origins:
  "map country_of_origin (fst (run_state (simulate_scrape_from_url hash netloc url query pq) g)) =
     map (\<lambda>p. if intent pq = Some ''export'' then target_reporting_country_normalized pq else Some p)
       (filter (\<lambda>p. \<not> skip_partner (target_reporting_country_normalized pq) p)
       possible_partner_countries)"
  unfolding simulate_scrape_from_url_def
  by (rule list_all2_map_eq, rule list_all2_mono [OF simulate_loop_shape])
     (simp add: synthesized_def)

lemma simulate_destinations:
  "map country_of_destination (fst (run_state (simulate_scrape_from_url hash netloc url query pq) g)) =
     map (\<lambda>p. if intent pq = Some ''export'' then Some p else target_reporting_country_normalized pq)
       (filter (\<lambda>p. \<not> skip_partner (target_reporting_country_normalized pq) p)
       possible_partner_countries)"
  unfolding simulate_scrape_from_url_def
  by (rule list_all2_map_eq, rule list_all2_mono [OF simulate_loop_shape])
     (simp add: synthesized_def)

lemma retained_blank:
  "filter (\<lambda>p. \<not> skip_partner (target_reporting_country_normalized query_blank_export) p)
       possible_partner_countries = possible_partner_countries"
  by (simp add: query_blank_export_def target_reporting_country_normalized_def truthy_def
      skip_partner_def)

lemma retained_germany:
  "filter (\<lambda>p. \<not> skip_partner (target_reporting_country_normalized query_germany_import) p)
       possible_partner_countries
   = [''USA'', ''China'', ''Japan'', ''Brazil'', ''Canada'', ''Mexico'', ''France'', ''UK'']"
  by (simp add: query_germany_import_def target_reporting_country_normalized_def truthy_def
      skip_partner_def possible_partner_countries_def normalize_simps)

text \<open>
  C2, as stated, fails when the query country is the empty string: the guard
  \<^verbatim>\<open>if parsed_query.country\<close> treats it as no country, and the origin of an export
  record is then absent, not the normalized query country.
\<close>

theorem origin_absent_for_blank_country:
  "ParsedQuery.country query_blank_export = Some []
   \<and> intent query_blank_export = Some ''export''
   \<and> normalize_country_name [] = []
   \<and> map country_of_origin (fst (run_state (simulate_scrape_from_url sample_hash sample_netloc
         ''https://data.example.org/trade'' ''HSN 8419 export data'' query_blank_export) sample_rng))
     = [None, None, None, None, None, None, None, None, None]"
  by (simp add: simulate_origins retained_blank normalize_empty)
     (simp add: query_blank_export_def target_reporting_country_normalized_def truthy_def
        possible_partner_countries_def)

lemma simulate_direction:
  assumes "ParsedQuery.country pq = Some C" and "C \<noteq> []"
  shows "list_all (direction_ok pq C)
           (fst (run_state (simulate_scrape_from_url hash netloc url query pq) g))"
  unfolding list_all_iff
proof
  fix r
  assume "r \<in> set (fst (run_state (simulate_scrape_from_url hash netloc url query pq) g))"
  then obtain p where "synthesized hash query pq p r"
    using simulate_record by blast
  moreover from assms have
    "target_reporting_country_normalized pq = Some (normalize_country_name C)"
    by (simp add: target_reporting_country_normalized_def truthy_def)
  ultimately show "direction_ok pq C r"
    by (simp add: synthesized_def direction_ok_def)
qed

text \<open>
  C2, amended. When the query names a non-empty country \<open>C\<close>, every synthesized record
  has a partner country; for the intent export its origin is the normalized \<open>C\<close> and its
  destination is the partner, and for the intent import its origin is the partner and its
  destination is the normalized \<open>C\<close>.
\<close>

theorem trade_direction_fields:
  assumes "ParsedQuery.country pq = Some C" and "C \<noteq> []"
  shows "\<forall>r\<in>set (fst (run_state (simulate_scrape_from_url hash netloc url query pq) g))
            \<union> set (fst (fetch_data hash netloc search queries pq st)).
           country r \<noteq> None
           \<and> (intent pq = Some ''export'' \<longrightarrow>
                country_of_origin r = Some (normalize_country_name C)
                \<and> country_of_destination r = country r)
           \<and> (intent pq = Some ''import'' \<longrightarrow>
                country_of_origin r = country r
                \<and> country_of_destination r = Some (normalize_country_name C))"
  using simulate_direction [OF assms, of hash netloc]
    fetch_queries_from_simulate [of "direction_ok pq C" hash netloc pq search queries st]
  by (auto simp add: fetch_data_def list_all_iff direction_ok_def)

theorem trade_direction_fields_witness:
  "ParsedQuery.country query_usa_export = Some ''USA'' \<and> ''USA'' \<noteq> []
   \<and> intent query_usa_export = Some ''export''
   \<and> map country (fst (run_state (simulate_scrape_from_url sample_hash sample_netloc
        ''https://data.example.org/trade'' ''HSN 8419 export data'' query_usa_export) sample_rng))
     = [Some ''Germany'', Some ''China'', Some ''Japan'', Some ''Brazil'', Some ''Canada'',
        Some ''Mexico'', Some ''France'', Some ''UK'']
   \<and> list_all (\<lambda>r. country_of_origin r = Some ''United States''
                   \<and> country_of_destination r = country r)
        (fst (run_state (simulate_scrape_from_url sample_hash sample_netloc
           ''https://data.example.org/trade'' ''HSN 8419 export data'' query_usa_export) sample_rng))
   \<and> ParsedQuery.country query_germany_import = Some ''Germany'' \<and> ''Germany'' \<noteq> []
   \<and> intent query_germany_import = Some ''import''
   \<and> map country (fst (run_state (simulate_scrape_from_url sample_hash sample_netloc
        ''https://data.example.org/trade'' ''HSN 9021 import data'' query_germany_import) sample_rng))
     = [Some ''USA'', Some ''China'', Some ''Japan'', Some ''Brazil'', Some ''Canada'',
        Some ''Mexico'', Some ''France'', Some ''UK'']
   \<and> list_all (\<lambda>r. country_of_origin r = country r
                   \<and> country_of_destination r = Some ''Germany'')
        (fst (run_state (simulate_scrape_from_url sample_hash sample_netloc
           ''https://data.example.org/trade'' ''HSN 9021 import data'' query_germany_import) sample_rng))"
proof -
  have c1: "ParsedQuery.country query_usa_export = Some ''USA''"
    and i1: "intent query_usa_export = Some ''export''"
    by (simp_all add: query_usa_export_def)
  have c2: "ParsedQuery.country query_germany_import = Some ''Germany''"
    and i2: "intent query_germany_import = Some ''import''"
    by (simp_all add: query_germany_import_def)
  have n: "normalize_country_name ''USA'' = ''United States''"
    "normalize_country_name ''Germany'' = ''Germany''"
    by (simp_all add: normalize_simps)
  have ne: "''USA'' \<noteq> []" "''Germany'' \<noteq> []"
    by simp_all
  show ?thesis
    using trade_direction_fields [OF c1 ne(1), of sample_hash sample_netloc
        "''https://data.example.org/trade''" "''HSN 8419 export data''" sample_rng
        sample_search "[]" "({}, sample_rng)"]
      trade_direction_fields [OF c2 ne(2), of sample_hash sample_netloc
        "''https://data.example.org/trade''" "''HSN 9021 import data''" sample_rng
        sample_search "[]" "({}, sample_rng)"]
    by (simp add: c1 c2 i1 i2 n simulate_countries retained_usa retained_germany list_all_iff)
qed

lemma hash_volume_range:
  "100000 \<le> hash_volume hash p query \<and> hash_volume hash p query < 200000"
  by (simp add: hash_volume_def)

text \<open>
  C6, as stated, fails between two interpreter processes: the hash of the same partner
  name and query string differs with the salt, and so do the volumes.
\<close>

theorem base_volume_differs_between_processes:
  "map volume_usd (fst (run_state (simulate_scrape_from_url hash_first_process sample_netloc
       ''https://data.example.org/trade'' ''HSN 8419 export data'' query_usa_export) sample_rng))
     = [Some (100027 * (8 / 10)), Some (100025 * (8 / 10)), Some (100025 * (8 / 10)),
        Some (100026 * (8 / 10)), Some (100026 * (8 / 10)), Some (100026 * (8 / 10)),
        Some (100026 * (8 / 10)), Some (100022 * (8 / 10))]
   \<and> map volume_usd (fst (run_state (simulate_scrape_from_url hash_second_process sample_netloc
       ''https://data.example.org/trade'' ''HSN 8419 export data'' query_usa_export) sample_rng))
     = [Some (100032 * (8 / 10)), Some (100030 * (8 / 10)), Some (100030 * (8 / 10)),
        Some (100031 * (8 / 10)), Some (100031 * (8 / 10)), Some (100031 * (8 / 10)),
        Some (100031 * (8 / 10)), Some (100027 * (8 / 10))]
   \<and> map volume_usd (fst (run_state (simulate_scrape_from_url hash_first_process sample_netloc
       ''https://data.example.org/trade'' ''HSN 8419 export data'' query_usa_export) sample_rng))
     \<noteq> map volume_usd (fst (run_state (simulate_scrape_from_url hash_second_process sample_netloc
       ''https://data.example.org/trade'' ''HSN 8419 export data'' query_usa_export) sample_rng))"
proof -
  have i: "intent query_usa_export = Some ''export''"
    by (simp add: query_usa_export_def)
  show ?thesis
    by (simp add: simulate_volumes retained_usa i base_volume_def hash_volume_def
        hash_first_process_def hash_second_process_def)
qed

text \<open>
  C6, amended. Within one interpreter process, that is for one function \<open>hash\<close>, the
  volumes of the records produced do not depend on the generator or on the link: two calls
  for the same query string and parsed query give the same volumes, and the volume of the
  record of partner \<open>p\<close> is \<open>100000 + \<bar>hash (p @ query)\<bar> mod 100000\<close>, a value from 100000
  up to but not 200000, times 1.2 for import, 0.8 for export and 1 otherwise.
\<close>

theorem base_volume_deterministic:
  "map volume_usd (fst (run_state (simulate_scrape_from_url hash netloc url query pq) g))
     = map volume_usd (fst (run_state (simulate_scrape_from_url hash netloc' url' query pq) g'))
   \<and> map volume_usd (fst (run_state (simulate_scrape_from_url hash netloc url query pq) g))
     = map (\<lambda>p. Some (of_int (100000 + \<bar>hash (p @ query)\<bar> mod 100000)
                       * (if intent pq = Some ''import'' then 12 / 10
                          else if intent pq = Some ''export'' then 8 / 10 else 1)))
         (filter (\<lambda>p. \<not> skip_partner (target_reporting_country_normalized pq) p)
            possible_partner_countries)
   \<and> 100000 \<le> hash_volume hash p query \<and> hash_volume hash p query < 200000
   \<and> hash_volume hash p query = 100000 + \<bar>hash (p @ query)\<bar> mod 100000"
  by (simp add: simulate_volumes hash_volume_range base_volume_def)
     (simp add: hash_volume_def)

subsection \<open>Dumped records and frames\<close>

lemma set_map_filter: "set (List.map_filter g xs) = {y. \<exists>x\<in>set xs. g x = Some y}"
  by (induction xs) (auto split: option.splits)

lemma model_dump_keys:
  "fst ` set (model_dump by_alias td) =
     {(if by_alias then field_label f else fst f) | f. f \<in> set model_fields \<and> field_value f td \<noteq> None}"
  by (auto simp add: model_dump_def set_map_filter field_value_def image_iff) force+

lemma set_first_seen: "set (first_seen seen xs) = set seen \<union> set xs"
  by (induction xs arbitrary: seen) auto

lemma columns_DataFrame_of:
  "set (columns (DataFrame_of dicts)) = (\<Union>d\<in>set dicts. fst ` set d)"
  by (simp add: DataFrame_of_def set_first_seen)

lemma map_of_map_filter:
  assumes "distinct (map key fs)"
  shows "map_of (List.map_filter (\<lambda>f. map_option (Pair (key f)) (get f)) fs) k =
           Option.bind (List.find (\<lambda>f. key f = k) fs) get"
  using assms
proof (induction fs)
  case Nil
  show ?case by simp
next
  case (Cons f fs)
  show ?case
  proof (cases "key f = k")
    case True
    with Cons.prems have "List.find (\<lambda>f. key f = k) fs = None"
      by (force simp add: find_None_iff image_iff)
    with True Cons show ?thesis
      by (cases "get f") simp_all
  next
    case False
    with Cons show ?thesis
      by (cases "get f") simp_all
  qed
qed

lemma distinct_names: "distinct (map fst model_fields)"
  by (simp add: model_fields_def)

lemma distinct_labels: "distinct (map field_label model_fields)"
  by (simp add: model_fields_def field_label_def)

lemma map_of_model_dump:
  "map_of (model_dump False td) k =
     Option.bind (List.find (\<lambda>f. fst f = k) model_fields) (\<lambda>f. snd (snd f) td)"
  using map_of_map_filter [OF distinct_names, of "\<lambda>f. snd (snd f) td" k]
  by (simp add: model_dump_def)

lemma cells:
  "map_of (model_dump False td) ''country'' = map_option StrV (country td)"
  "map_of (model_dump False td) ''volume_usd'' = map_option FloatV (volume_usd td)"
  "map_of (model_dump False td) ''freight_term'' = map_option StrV (freight_term td)"
  "map_of (model_dump False td) ''package_type'' = map_option StrV (package_type td)"
  by (simp_all add: map_of_model_dump model_fields_def)


subsection \<open>The report exporter\<close>

lemma export_columns_present:
  assumes "\<exists>r\<in>set trade_data. \<exists>f\<in>set model_fields. field_value f r \<noteq> None"
  shows "set (columns (export_to_excel trade_data)) =
           {field_label f | f. f \<in> set model_fields \<and> (\<exists>r\<in>set trade_data. field_value f r \<noteq> None)}"
proof -
  from assms have ne: "trade_data \<noteq> []"
    by auto
  let ?df = "DataFrame_of (map (model_dump True) trade_data)"
  have keys: "fst ` set (model_dump True r) =
      {field_label f | f. f \<in> set model_fields \<and> field_value f r \<noteq> None}" for r
    using model_dump_keys [of True r] by simp
  have cols: "set (columns ?df) =
      {field_label f | f. f \<in> set model_fields \<and> (\<exists>r\<in>set trade_data. field_value f r \<noteq> None)}"
    by (simp add: columns_DataFrame_of keys) blast
  with assms have "columns ?df \<noteq> []"
    by auto
  with ne have "export_to_excel trade_data = ?df"
    by (simp add: export_to_excel_def df_empty_def Let_def DataFrame_of_def)
  with cols show ?thesis
    by simp
qed

lemma export_columns_absent:
  assumes "trade_data \<noteq> []"
    and "\<forall>r\<in>set trade_data. \<forall>f\<in>set model_fields. field_value f r = None"
  shows "columns (export_to_excel trade_data) = map field_label model_fields"
proof -
  let ?df = "DataFrame_of (map (model_dump True) trade_data)"
  have keys: "fst ` set (model_dump True r) =
      {field_label f | f. f \<in> set model_fields \<and> field_value f r \<noteq> None}" for r
    using model_dump_keys [of True r] by simp
  from assms(2) have "set (columns ?df) = {}"
    by (simp add: columns_DataFrame_of keys)
  then have "df_empty ?df"
    by (simp add: df_empty_def)
  with assms(1) show ?thesis
    by (simp add: export_to_excel_def Let_def)
qed

lemma export_rows_absent:
  assumes "trade_data \<noteq> []"
    and "\<forall>r\<in>set trade_data. \<forall>f\<in>set model_fields. field_value f r = None"
  shows "rows (export_to_excel trade_data) = []"
proof -
  let ?df = "DataFrame_of (map (model_dump True) trade_data)"
  have keys: "fst ` set (model_dump True r) =
      {field_label f | f. f \<in> set model_fields \<and> field_value f r \<noteq> None}" for r
    using model_dump_keys [of True r] by simp
  from assms(2) have "set (columns ?df) = {}"
    by (simp add: columns_DataFrame_of keys)
  then have "df_empty ?df"
    by (simp add: df_empty_def)
  with assms(1) show ?thesis
    by (simp add: export_to_excel_def Let_def)
qed

lemma label_of_absent_field:
  assumes "f \<in> set model_fields"
    and "\<forall>r\<in>set trade_data. field_value f r = None"
  shows "field_label f \<notin>
           {field_label f' | f'. f' \<in> set model_fields \<and> (\<exists>r\<in>set trade_data. field_value f' r \<noteq> None)}"
proof
  assume "field_label f \<in>
      {field_label f' | f'. f' \<in> set model_fields \<and> (\<exists>r\<in>set trade_data. field_value f' r \<noteq> None)}"
  then have "\<exists>f'. field_label f = field_label f' \<and> f' \<in> set model_fields
      \<and> (\<exists>r\<in>set trade_data. field_value f' r \<noteq> None)"
    by (simp only: mem_Collect_eq)
  then obtain f' where l: "field_label f = field_label f'" and f': "f' \<in> set model_fields"
    and v: "\<exists>r\<in>set trade_data. field_value f' r \<noteq> None"
    by (elim exE conjE)
  from distinct_labels have "inj_on field_label (set model_fields)"
    by (simp add: distinct_map)
  from this l assms(1) f' have "f = f'"
    by (rule inj_onD)
  with v assms(2) show False
    by simp
qed

text \<open>
  C5, amended. When at least one record has at least one field that is not absent, the
  columns of the table are exactly the labels of the fields that have a value in some
  record, and the label of a field absent in every record is not a column. When the list
  is not empty and every field is absent in every record, the columns are all the labels
  of the model and the table has no rows.
\<close>

theorem exporter_columns:
  "((\<exists>r\<in>set trade_data. \<exists>f\<in>set model_fields. field_value f r \<noteq> None) \<longrightarrow>
      set (columns (export_to_excel trade_data)) =
        {field_label f | f. f \<in> set model_fields \<and> (\<exists>r\<in>set trade_data. field_value f r \<noteq> None)}
      \<and> (\<forall>f\<in>set model_fields. (\<forall>r\<in>set trade_data. field_value f r = None) \<longrightarrow>
            field_label f \<notin> set (columns (export_to_excel trade_data))))
   \<and> (trade_data \<noteq> [] \<and> (\<forall>r\<in>set trade_data. \<forall>f\<in>set model_fields. field_value f r = None) \<longrightarrow>
        columns (export_to_excel trade_data) = map field_label model_fields
        \<and> rows (export_to_excel trade_data) = [])"
  using export_columns_present [of trade_data] export_columns_absent [of trade_data]
    export_rows_absent [of trade_data] label_of_absent_field [of _ trade_data]
  by (intro conjI impI ballI) simp_all

subsection \<open>The query intent extractor\<close>

lemma optional_str_cases:
  assumes "optional_str x = Some i"
  shows "i = None \<or> (\<exists>s. i = Some s \<and> x = Some (JStr s))"
  using assms by (cases x rule: optional_str.cases) auto

lemma validate_intent:
  assumes "validate_ParsedQuery parsed_data = Some parsed"
  shows "intent parsed = None
         \<or> (\<exists>kvs s. parsed_data = JObj kvs \<and> map_of kvs ''intent'' = Some (JStr s)
               \<and> intent parsed = Some s)"
proof (cases parsed_data)
  case (JObj kvs)
  with assms obtain i where "optional_str (map_of kvs ''intent'') = Some i" "intent parsed = i"
    by (auto simp add: validate_ParsedQuery_def split: option.splits)
  with JObj optional_str_cases [of "map_of kvs ''intent''" i] show ?thesis
    by auto
qed (use assms in \<open>simp_all add: validate_ParsedQuery_def\<close>)

lemma validate_intent_iff:
  "(\<exists>parsed. validate_ParsedQuery parsed_data = Some parsed \<and> intent parsed = Some s) \<longleftrightarrow>
     (\<exists>kvs. parsed_data = JObj kvs
        \<and> map_of kvs ''intent'' = Some (JStr s)
        \<and> optional_str (map_of kvs ''hsn_code'') \<noteq> None
        \<and> optional_str (map_of kvs ''product_name'') \<noteq> None
        \<and> optional_str (map_of kvs ''country'') \<noteq> None
        \<and> str_list (map_of kvs ''keywords'') \<noteq> None)"
proof (cases parsed_data)
  case (JObj kvs)
  show ?thesis
  proof
    assume "\<exists>parsed. validate_ParsedQuery parsed_data = Some parsed \<and> intent parsed = Some s"
    then obtain parsed where v: "validate_ParsedQuery parsed_data = Some parsed"
      and i: "intent parsed = Some s"
      by blast
    from v JObj have others: "optional_str (map_of kvs ''hsn_code'') \<noteq> None"
      "optional_str (map_of kvs ''product_name'') \<noteq> None"
      "optional_str (map_of kvs ''country'') \<noteq> None"
      "str_list (map_of kvs ''keywords'') \<noteq> None"
      by (auto simp add: validate_ParsedQuery_def split: option.splits)
    from v i JObj have "optional_str (map_of kvs ''intent'') = Some (Some s)"
      by (auto simp add: validate_ParsedQuery_def split: option.splits)
    with optional_str_cases [of "map_of kvs ''intent''" "Some s"]
    have "map_of kvs ''intent'' = Some (JStr s)"
      by simp
    with JObj others show "\<exists>kvs. parsed_data = JObj kvs
        \<and> map_of kvs ''intent'' = Some (JStr s)
        \<and> optional_str (map_of kvs ''hsn_code'') \<noteq> None
        \<and> optional_str (map_of kvs ''product_name'') \<noteq> None
        \<and> optional_str (map_of kvs ''country'') \<noteq> None
        \<and> str_list (map_of kvs ''keywords'') \<noteq> None"
      by simp
  next
    assume "\<exists>kvs. parsed_data = JObj kvs
        \<and> map_of kvs ''intent'' = Some (JStr s)
        \<and> optional_str (map_of kvs ''hsn_code'') \<noteq> None
        \<and> optional_str (map_of kvs ''product_name'') \<noteq> None
        \<and> optional_str (map_of kvs ''country'') \<noteq> None
        \<and> str_list (map_of kvs ''keywords'') \<noteq> None"
    with JObj show "\<exists>parsed. validate_ParsedQuery parsed_data = Some parsed \<and> intent parsed = Some s"
      by (auto simp add: validate_ParsedQuery_def)
  qed
qed (simp_all add: validate_ParsedQuery_def)

lemma parse_query_intent:
  "intent (parse_query chat json_loads query) = Some s \<longleftrightarrow>
     (\<exists>content parsed_data. chat query = Some content
        \<and> json_loads content = Some parsed_data
        \<and> (\<exists>parsed. validate_ParsedQuery parsed_data = Some parsed \<and> intent parsed = Some s))"
  by (auto simp add: parse_query_def ParsedQuery_default_def split: option.splits)

text \<open>
  What \<^verbatim>\<open>parse_query\<close> does with the intent: it is the string \<open>s\<close> exactly when the call
  succeeds, the reply decodes to a JSON object that holds the string \<open>s\<close> under the key
  \<^verbatim>\<open>intent\<close>, and the other four fields validate; in every other case it is absent. No
  string is excluded.
\<close>

lemma parsed_intent_characterised:
  "intent (parse_query chat json_loads query) = Some s \<longleftrightarrow>
     (\<exists>content kvs. chat query = Some content
        \<and> json_loads content = Some (JObj kvs)
        \<and> map_of kvs ''intent'' = Some (JStr s)
        \<and> optional_str (map_of kvs ''hsn_code'') \<noteq> None
        \<and> optional_str (map_of kvs ''product_name'') \<noteq> None
        \<and> optional_str (map_of kvs ''country'') \<noteq> None
        \<and> str_list (map_of kvs ''keywords'') \<noteq> None)"
  unfolding parse_query_intent validate_intent_iff
  by blast

subsection \<open>Evaluation at sample inputs\<close>

lemmas dump_simps =
  model_dump_def model_fields_def field_label_def TradeDataRecord_default_def

lemma dump_record_usa:
  "model_dump False record_usa = [(''country'', StrV ''USA''), (''volume_usd'', FloatV 1000)]"
  "model_dump True record_usa = [(''country'', StrV ''USA''), (''volume_usd'', FloatV 1000)]"
  by (simp_all add: dump_simps record_usa_def)

lemma dump_record_volume_only:
  "model_dump False record_volume_only = [(''volume_usd'', FloatV 1000)]"
  by (simp add: dump_simps record_volume_only_def)

lemma dump_record_fob:
  "model_dump False record_fob = [(''country'', StrV ''USA''), (''freight_term'', StrV ''FOB'')]"
  by (simp add: dump_simps record_fob_def)

lemma dump_record_cif:
  "model_dump False record_cif = [(''country'', StrV ''China''), (''freight_term'', StrV ''CIF'')]"
  by (simp add: dump_simps record_cif_def)

lemma dump_default: "model_dump by_alias TradeDataRecord_default = []"
  by (simp add: dump_simps)

lemma all_labels:
  "map field_label model_fields =
     [''country'', ''volume_usd'', ''volume_unit'', ''unit'', ''year'', ''source'',
      ''HS Code'', ''Product Description'', ''HS Product Description'', ''Shipper Name'',
      ''Consignee Name'', ''Standard Quantity'', ''Standard Unit'', ''Country of Destination'',
      ''Package Type'', ''Country of Origin'', ''Quantity'', ''Bill of Lading No'',
      ''Consignee Address'', ''Supplier Address'', ''Container TEU'', ''Port of Origin'',
      ''Port of Destination'', ''Port of Delivery'', ''Gross Weight'', ''Measurement'',
      ''Freight Term'', ''Forwarder Name'', ''Declarant Name'', ''Notify Party Address'',
      ''Declarant Name 2'', ''Marks Number'', ''Contact Number Booking'',
      ''Contact Email Booking'']"
  by (simp add: model_fields_def field_label_def)

lemmas aggregate_simps =
  generate_recommendations_def top_markets_def modal_recommendation_def
  llm_recommendations_def llm_columns_def DataFrame_of_def df_empty_def group_keys_def
  group_sum_def groupby_country_sum_def nlargest_def series_mode_def column_values_def Let_def

text \<open>
  C3. The claim holds of the aggregation itself (see \<open>top_countries_shape\<close> below), but the
  block does not emit a Recommendation for every input with a volume: when no record has a
  country the frame has no such column and \<^verbatim>\<open>groupby('country')\<close> raises, although the
  sibling blocks test for their column first.
\<close>

theorem top_markets_without_country_raises:
  "volume_usd record_volume_only = Some 1000
   \<and> country record_volume_only = None
   \<and> intent query_import = Some ''import''
   \<and> generate_recommendations sample_fmt [] [record_volume_only] query_import
       = Inl (KeyError ''country'')"
  by (simp add: dump_record_volume_only aggregate_simps)
     (simp add: record_volume_only_def TradeDataRecord_default_def query_import_def
        ParsedQuery_default_def)

text \<open>
  C4. The list returned is never empty when the function returns, and for the empty
  input it is the one fallback entry (\<open>generate_recommendations_nonempty\<close> and
  \<open>generate_recommendations_empty_input\<close> below), but the function does not return for
  every parsed query: with no intent, \<^verbatim>\<open>parsed_query.intent + (...)\<close> adds a string to
  \<^verbatim>\<open>None\<close> and raises.
\<close>

theorem recommendations_without_intent_raise:
  "intent query_no_intent = None
   \<and> generate_recommendations sample_fmt [] [record_usa, record_fob] query_no_intent
       = Inl TypeError"
  by (simp add: dump_record_usa dump_record_fob aggregate_simps)
     (simp add: query_no_intent_def ParsedQuery_default_def)

text \<open>
  C9. With an absent intent and a record that has a country and a volume, the title of the
  top-markets Recommendation is not built: the concatenation raises \<^verbatim>\<open>TypeError\<close>, outside
  every \<^verbatim>\<open>try\<close>.
\<close>

theorem top_markets_absent_intent_raises:
  "intent ParsedQuery_default = None
   \<and> generate_recommendations sample_fmt [] [record_usa] ParsedQuery_default = Inl TypeError"
  by (simp add: dump_record_usa aggregate_simps)
     (simp add: ParsedQuery_default_def)

text \<open>
  C8, as stated, fails on a tie: \<^verbatim>\<open>FOB\<close> is met first and \<^verbatim>\<open>CIF\<close> second, each once, and
  the Recommendation names \<^verbatim>\<open>CIF\<close>, the first of the sorted modes.
\<close>

theorem mode_tie_names_least_value:
  "map freight_term [record_fob, record_cif] = [Some ''FOB'', Some ''CIF'']
   \<and> generate_recommendations sample_fmt [] [record_fob, record_cif] query_import
       = Inr [\<lparr>title = ''Common Freight Terms'',
               description = ''Most frequently observed freight term: CIF.''\<rparr>]"
  by (simp add: dump_record_fob dump_record_cif aggregate_simps)
     (simp add: record_fob_def record_cif_def TradeDataRecord_default_def)

text \<open>
  C5, as stated, fails for a list whose records have no field at all: no label has a value,
  and the table has every label of the model as a column.
\<close>

theorem exporter_all_absent_has_all_columns:
  "model_dump True TradeDataRecord_default = []
   \<and> columns (export_to_excel [TradeDataRecord_default]) =
     [''country'', ''volume_usd'', ''volume_unit'', ''unit'', ''year'', ''source'',
      ''HS Code'', ''Product Description'', ''HS Product Description'', ''Shipper Name'',
      ''Consignee Name'', ''Standard Quantity'', ''Standard Unit'', ''Country of Destination'',
      ''Package Type'', ''Country of Origin'', ''Quantity'', ''Bill of Lading No'',
      ''Consignee Address'', ''Supplier Address'', ''Container TEU'', ''Port of Origin'',
      ''Port of Destination'', ''Port of Delivery'', ''Gross Weight'', ''Measurement'',
      ''Freight Term'', ''Forwarder Name'', ''Declarant Name'', ''Notify Party Address'',
      ''Declarant Name 2'', ''Marks Number'', ''Contact Number Booking'',
      ''Contact Email Booking'']
   \<and> rows (export_to_excel [TradeDataRecord_default]) = []"
  by (simp add: dump_default export_to_excel_def DataFrame_of_def df_empty_def all_labels)

theorem exporter_columns_witness:
  "(\<exists>r\<in>set [record_usa]. \<exists>f\<in>set model_fields. field_value f r \<noteq> None)
   \<and> columns (export_to_excel [record_usa]) = [''country'', ''volume_usd'']
   \<and> set (columns (export_to_excel [record_usa])) =
       {field_label f | f. f \<in> set model_fields \<and> (\<exists>r\<in>set [record_usa]. field_value f r \<noteq> None)}
   \<and> [TradeDataRecord_default] \<noteq> []
   \<and> list_all (\<lambda>r. list_all (\<lambda>f. field_value f r = None) model_fields) [TradeDataRecord_default]
   \<and> columns (export_to_excel [TradeDataRecord_default]) = map field_label model_fields
   \<and> rows (export_to_excel [TradeDataRecord_default]) = []"
proof -
  have present: "\<exists>r\<in>set [record_usa]. \<exists>f\<in>set model_fields. field_value f r \<noteq> None"
    by (simp add: model_fields_def field_value_def record_usa_def)
  have absent: "\<forall>r\<in>set [TradeDataRecord_default]. \<forall>f\<in>set model_fields. field_value f r = None"
    by (simp add: model_fields_def field_value_def TradeDataRecord_default_def)
  then have absent': "list_all (\<lambda>r. list_all (\<lambda>f. field_value f r = None) model_fields)
      [TradeDataRecord_default]"
    by (simp only: list_all_iff)
  have cols: "columns (export_to_excel [record_usa]) = [''country'', ''volume_usd'']"
    by (simp add: dump_record_usa export_to_excel_def DataFrame_of_def df_empty_def)
  from exporter_columns [of "[record_usa]"] present
  have "set (columns (export_to_excel [record_usa])) =
       {field_label f | f. f \<in> set model_fields \<and> (\<exists>r\<in>set [record_usa]. field_value f r \<noteq> None)}"
    by blast
  moreover from exporter_columns [of "[TradeDataRecord_default]"] absent
  have "columns (export_to_excel [TradeDataRecord_default]) = map field_label model_fields
      \<and> rows (export_to_excel [TradeDataRecord_default]) = []"
    by blast
  ultimately show ?thesis
    using present absent' cols by blast
qed

text \<open>
  C7. The model documents the field as \<^verbatim>\<open>'import' or 'export' intent\<close> and the prompt asks
  for one of the two, but the field is an optional string and \<^verbatim>\<open>parse_query\<close> hands the
  reply to the model unchecked: a reply whose intent is \<^verbatim>\<open>both\<close> gives a parsed query
  whose intent is \<^verbatim>\<open>both\<close>.
\<close>

theorem intent_other_than_import_export:
  "loads_both ''reply'' = Some (JObj [(''intent'', JStr ''both'')])
   \<and> intent (parse_query reply_both loads_both ''Which markets trade HSN 8419?'') = Some ''both''"
  by (simp add: parse_query_def reply_both_def loads_both_def validate_ParsedQuery_def)

subsection \<open>The recommendation aggregator\<close>

lemma column_iff:
  "c \<in> set (columns (DataFrame_of (map (model_dump False) trade_data))) \<longleftrightarrow>
     (\<exists>r\<in>set trade_data. map_of (model_dump False r) c \<noteq> None)"
  by (auto simp add: columns_DataFrame_of map_of_eq_None_iff)

lemma str_cell_StrV: "str_cell (map_option StrV x) = x"
  by (cases x) simp_all

lemma nlargest_shape:
  "length (nlargest 3 series) \<le> 3"
  "sorted_wrt (\<lambda>a b. snd b \<le> snd a) (nlargest 3 series)"
  "set (nlargest 3 series) \<subseteq> set series"
proof -
  show "length (nlargest 3 series) \<le> 3"
    by (simp add: nlargest_def)
  have "sorted (map (\<lambda>kv. - snd kv) (sort_key (\<lambda>kv. - snd kv) series))"
    by (rule sorted_sort_key)
  then have "sorted_wrt (\<lambda>a b. snd b \<le> snd a) (sort_key (\<lambda>kv. - snd kv) series)"
    by (simp add: sorted_map)
  then show "sorted_wrt (\<lambda>a b. snd b \<le> snd a) (nlargest 3 series)"
    unfolding nlargest_def by (rule sorted_wrt_take)
  show "set (nlargest 3 series) \<subseteq> set series"
    using set_take_subset [of 3 "sort_key (\<lambda>kv. - snd kv) series"]
    by (simp add: nlargest_def)
qed

lemma group_key_is_country:
  assumes "kv \<in> set (groupby_country_sum (DataFrame_of (map (model_dump False) trade_data)))"
  shows "\<exists>r\<in>set trade_data. country r = Some (fst kv)"
  using assms
  by (auto simp add: groupby_country_sum_def group_keys_def DataFrame_of_def set_map_filter
      cells str_cell_StrV)

text \<open>
  What the top-markets block lists: at most three groups, in descending order of their
  sums, each the country of an input record with the sum of the volumes of that country.
\<close>

lemma top_countries_shape:
  fixes trade_data :: "TradeDataRecord list"
  defines "df \<equiv> DataFrame_of (map (model_dump False) trade_data)"
  defines "top_countries \<equiv> nlargest 3 (groupby_country_sum df)"
  shows "length top_countries \<le> 3"
    and "sorted_wrt (\<lambda>a b. snd b \<le> snd a) top_countries"
    and "\<forall>kv\<in>set top_countries.
           (\<exists>r\<in>set trade_data. country r = Some (fst kv)) \<and> snd kv = group_sum df (fst kv)"
proof -
  show "length top_countries \<le> 3"
    unfolding top_countries_def by (rule nlargest_shape)
  show "sorted_wrt (\<lambda>a b. snd b \<le> snd a) top_countries"
    unfolding top_countries_def by (rule nlargest_shape)
  show "\<forall>kv\<in>set top_countries.
           (\<exists>r\<in>set trade_data. country r = Some (fst kv)) \<and> snd kv = group_sum df (fst kv)"
  proof
    fix kv
    assume "kv \<in> set top_countries"
    with nlargest_shape(3) have kv: "kv \<in> set (groupby_country_sum df)"
      unfolding top_countries_def by blast
    then have "snd kv = group_sum df (fst kv)"
      by (auto simp add: groupby_country_sum_def)
    with kv group_key_is_country [of kv trade_data]
    show "(\<exists>r\<in>set trade_data. country r = Some (fst kv)) \<and> snd kv = group_sum df (fst kv)"
      by (simp add: df_def)
  qed
qed

lemma generate_recommendations_nonempty:
  assumes "generate_recommendations fmt llm_recs trade_data parsed_query = Inr recs"
  shows "recs \<noteq> []"
  using assms
  by (auto simp add: generate_recommendations_def Let_def split: if_splits sum.splits)

lemma generate_recommendations_empty_input:
  "generate_recommendations fmt llm_recs [] parsed_query =
     Inr [\<lparr>title = ''No Data'',
           description =
             ''No sufficient trade data found to generate specific recommendations.''\<rparr>]"
  by (simp add: generate_recommendations_def)

lemma top_markets_returns:
  assumes "''volume_usd'' \<in> set (columns df) \<longrightarrow>
             ''country'' \<in> set (columns df) \<and> intent parsed_query \<noteq> None"
  shows "\<exists>top_recs. top_markets fmt df parsed_query = Inr top_recs"
  using assms
  by (cases "intent parsed_query") (auto simp add: top_markets_def Let_def)

lemma hd_sort_least:
  fixes xs :: "string list"
  assumes "xs \<noteq> []"
  shows "hd (sort xs) \<in> set xs \<and> (\<forall>y\<in>set xs. hd (sort xs) \<le> y)"
proof -
  from assms have "sort xs \<noteq> []"
    by (metis length_sort length_0_conv)
  then obtain a as where s: "sort xs = a # as"
    by (cases "sort xs") auto
  have "sorted (sort xs)" and "set (sort xs) = set xs"
    by simp_all
  with s show ?thesis
    by (auto simp add: sorted_simps)
qed

lemma fold_max_ge:
  fixes a :: nat
  shows "a \<le> fold max xs a \<and> (\<forall>x\<in>set xs. x \<le> fold max xs a)"
proof (induction xs arbitrary: a)
  case Nil
  show ?case by simp
next
  case (Cons x xs)
  from Cons [of "max x a"] show ?case
    by (auto simp add: max_def split: if_splits)
qed

lemma fold_max_in:
  fixes a :: nat
  shows "fold max xs a = a \<or> fold max xs a \<in> set xs"
proof (induction xs arbitrary: a)
  case Nil
  show ?case by simp
next
  case (Cons x xs)
  from Cons [of "max x a"] show ?case
    by (auto simp add: max_def split: if_splits)
qed

lemma series_mode_least:
  assumes "vals \<noteq> []"
  shows "series_mode vals \<noteq> [] \<and> least_mode (hd (series_mode vals)) vals"
proof -
  define most where "most = fold max (map (count_list vals) vals) 0"
  define modes where "modes = remdups (filter (\<lambda>v. count_list vals v = most) vals)"
  have ge: "count_list vals w \<le> most" if "w \<in> set vals" for w
    using fold_max_ge [of 0 "map (count_list vals) vals"] that
    by (simp add: most_def)
  from assms have "hd vals \<in> set vals"
    by simp
  with ge [of "hd vals"] have "most \<noteq> 0"
    using count_list_0_iff [of vals "hd vals"] by auto
  with fold_max_in [of "map (count_list vals) vals" 0]
  obtain v where "v \<in> set vals" "count_list vals v = most"
    by (auto simp add: most_def)
  then have ne: "modes \<noteq> []"
    by (auto simp add: modes_def filter_empty_conv)
  have sm: "series_mode vals = sort modes"
    by (simp add: series_mode_def most_def modes_def Let_def)
  from hd_sort_least [OF ne]
  have h: "hd (sort modes) \<in> set modes" "\<forall>y\<in>set modes. hd (sort modes) \<le> y"
    by simp_all
  from h(1) have in_vals: "hd (sort modes) \<in> set vals"
    and cnt: "count_list vals (hd (sort modes)) = most"
    by (simp_all add: modes_def)
  have "least_mode (hd (sort modes)) vals"
    unfolding least_mode_def
  proof (intro conjI ballI impI)
    show "hd (sort modes) \<in> set vals"
      by (rule in_vals)
  next
    fix w assume "w \<in> set vals"
    with ge cnt show "count_list vals w \<le> count_list vals (hd (sort modes))"
      by simp
  next
    fix w assume "w \<in> set vals" "count_list vals w = count_list vals (hd (sort modes))"
    with cnt have "w \<in> set modes"
      by (simp add: modes_def)
    with h(2) show "hd (sort modes) \<le> w"
      by simp
  qed
  with ne sm show ?thesis
    by (metis length_sort length_0_conv)
qed

lemma modal_recommendation_emitted:
  assumes cell: "\<And>r. map_of (model_dump False r) c = map_option StrV (get r)"
    and some: "\<exists>r\<in>set trade_data. get r \<noteq> None"
  shows "modal_recommendation (DataFrame_of (map (model_dump False) trade_data)) c rec_title prefix
           = [\<lparr>title = rec_title,
                description = prefix @ hd (series_mode (List.map_filter get trade_data)) @ ''.''\<rparr>]
         \<and> least_mode (hd (series_mode (List.map_filter get trade_data)))
             (List.map_filter get trade_data)"
proof -
  let ?df = "DataFrame_of (map (model_dump False) trade_data)"
  from some have col: "c \<in> set (columns ?df)"
    by (auto simp add: column_iff cell)
  from some have nn: "\<not> list_all (\<lambda>r. map_of r c = None) (rows ?df)"
    by (auto simp add: DataFrame_of_def list_all_iff cell)
  have vals: "column_values ?df c = List.map_filter get trade_data"
    by (induction trade_data)
       (simp_all add: column_values_def DataFrame_of_def cell str_cell_StrV split: option.splits)
  from some have "List.map_filter get trade_data \<noteq> []"
    by (auto simp add: List.map_filter_def filter_empty_conv)
  from series_mode_least [OF this] col nn vals show ?thesis
    by (simp add: modal_recommendation_def Let_def)
qed

text \<open>
  C8, amended. Outside the inputs at which the top-markets block raises (a volume is
  present and either no record has a country or the intent is absent),
  \<^verbatim>\<open>generate_recommendations\<close> returns, and for \<^verbatim>\<open>freight_term\<close>, and separately for
  \<^verbatim>\<open>package_type\<close>, when some record has the field the returned list contains the
  Recommendation that names a most frequent value of the field, the least one in the order
  of strings when several values are equally frequent.
\<close>

theorem modal_recommendations_name_least_mode:
  assumes "(\<exists>r\<in>set trade_data. volume_usd r \<noteq> None) \<longrightarrow>
             (\<exists>r\<in>set trade_data. country r \<noteq> None) \<and> intent parsed_query \<noteq> None"
  shows "\<exists>recs. generate_recommendations fmt llm_recs trade_data parsed_query = Inr recs
           \<and> ((\<exists>r\<in>set trade_data. freight_term r \<noteq> None) \<longrightarrow>
                (\<exists>v. least_mode v (List.map_filter freight_term trade_data)
                   \<and> \<lparr>title = ''Common Freight Terms'',
                       description = ''Most frequently observed freight term: '' @ v @ ''.''\<rparr>
                     \<in> set recs))
           \<and> ((\<exists>r\<in>set trade_data. package_type r \<noteq> None) \<longrightarrow>
                (\<exists>v. least_mode v (List.map_filter package_type trade_data)
                   \<and> \<lparr>title = ''Typical Packaging'',
                       description = ''Common packaging type: '' @ v @ ''.''\<rparr>
                     \<in> set recs))"
proof (cases "trade_data = []")
  case True
  then show ?thesis
    by (simp add: generate_recommendations_def)
next
  case False
  let ?df = "DataFrame_of (map (model_dump False) trade_data)"
  let ?ft = "modal_recommendation ?df ''freight_term'' ''Common Freight Terms''
               ''Most frequently observed freight term: ''"
  let ?pt = "modal_recommendation ?df ''package_type'' ''Typical Packaging''
               ''Common packaging type: ''"
  from assms have "''volume_usd'' \<in> set (columns ?df) \<longrightarrow>
      ''country'' \<in> set (columns ?df) \<and> intent parsed_query \<noteq> None"
    by (simp add: column_iff cells)
  then obtain top_recs where top: "top_markets fmt ?df parsed_query = Inr top_recs"
    using top_markets_returns by blast
  define all where "all = top_recs @ ?ft @ ?pt @ llm_recommendations ?df llm_recs"
  define recs where "recs =
    (if all = []
     then [\<lparr>title = ''General Advice'',
            description = ''Further detailed analysis is required for specific recommendations.''\<rparr>]
     else all)"
  from False top have ret: "generate_recommendations fmt llm_recs trade_data parsed_query = Inr recs"
    by (simp add: generate_recommendations_def Let_def recs_def all_def)
  have sub: "set ?ft \<subseteq> set recs" "set ?pt \<subseteq> set recs"
    by (auto simp add: recs_def all_def)
  have ft: "\<exists>v. least_mode v (List.map_filter freight_term trade_data)
                   \<and> \<lparr>title = ''Common Freight Terms'',
                       description = ''Most frequently observed freight term: '' @ v @ ''.''\<rparr>
                     \<in> set recs"
    if "\<exists>r\<in>set trade_data. freight_term r \<noteq> None"
    using modal_recommendation_emitted [of "''freight_term''" freight_term trade_data
        "''Common Freight Terms''" "''Most frequently observed freight term: ''", OF cells(3) that]
      sub(1)
    by auto
  have pt: "\<exists>v. least_mode v (List.map_filter package_type trade_data)
                   \<and> \<lparr>title = ''Typical Packaging'',
                       description = ''Common packaging type: '' @ v @ ''.''\<rparr>
                     \<in> set recs"
    if "\<exists>r\<in>set trade_data. package_type r \<noteq> None"
    using modal_recommendation_emitted [of "''package_type''" package_type trade_data
        "''Typical Packaging''" "''Common packaging type: ''", OF cells(4) that]
      sub(2)
    by auto
  from ret ft pt show ?thesis
    by blast
qed

theorem modal_recommendations_name_least_mode_witness:
  "(\<exists>r\<in>set sample_shipments. volume_usd r \<noteq> None)
   \<and> (\<exists>r\<in>set sample_shipments. country r \<noteq> None)
   \<and> intent query_import \<noteq> None
   \<and> (\<exists>r\<in>set sample_shipments. freight_term r \<noteq> None)
   \<and> (\<exists>r\<in>set sample_shipments. package_type r \<noteq> None)
   \<and> List.map_filter freight_term sample_shipments = [''FOB'', ''CIF'', ''CIF'']
   \<and> List.map_filter package_type sample_shipments = [''Cartons'', ''Boxes'', ''Cartons'']
   \<and> (\<exists>recs. generate_recommendations sample_fmt [] sample_shipments query_import = Inr recs
         \<and> (\<exists>v. least_mode v [''FOB'', ''CIF'', ''CIF'']
               \<and> \<lparr>title = ''Common Freight Terms'',
                   description = ''Most frequently observed freight term: '' @ v @ ''.''\<rparr>
                 \<in> set recs)
         \<and> (\<exists>v. least_mode v [''Cartons'', ''Boxes'', ''Cartons'']
               \<and> \<lparr>title = ''Typical Packaging'',
                   description = ''Common packaging type: '' @ v @ ''.''\<rparr>
                 \<in> set recs))"
proof -
  have v: "\<exists>r\<in>set sample_shipments. volume_usd r \<noteq> None"
    and c: "\<exists>r\<in>set sample_shipments. country r \<noteq> None"
    and f: "\<exists>r\<in>set sample_shipments. freight_term r \<noteq> None"
    and p: "\<exists>r\<in>set sample_shipments. package_type r \<noteq> None"
    by (simp_all add: sample_shipments_def)
  have i: "intent query_import \<noteq> None"
    by (simp add: query_import_def ParsedQuery_default_def)
  have fs: "List.map_filter freight_term sample_shipments = [''FOB'', ''CIF'', ''CIF'']"
    and ps: "List.map_filter package_type sample_shipments = [''Cartons'', ''Boxes'', ''Cartons'']"
    by (simp_all add: sample_shipments_def)
  from c i have h: "(\<exists>r\<in>set sample_shipments. volume_usd r \<noteq> None) \<longrightarrow>
      (\<exists>r\<in>set sample_shipments. country r \<noteq> None) \<and> intent query_import \<noteq> None"
    by simp
  from modal_recommendations_name_least_mode [OF h, of sample_fmt "[]"] f p
  have "\<exists>recs. generate_recommendations sample_fmt [] sample_shipments query_import = Inr recs
         \<and> (\<exists>v. least_mode v [''FOB'', ''CIF'', ''CIF'']
               \<and> \<lparr>title = ''Common Freight Terms'',
                   description = ''Most frequently observed freight term: '' @ v @ ''.''\<rparr>
                 \<in> set recs)
         \<and> (\<exists>v. least_mode v [''Cartons'', ''Boxes'', ''Cartons'']
               \<and> \<lparr>title = ''Typical Packaging'',
                   description = ''Common packaging type: '' @ v @ ''.''\<rparr>
                 \<in> set recs)"
    unfolding fs ps by blast
  with v c i f p fs ps show ?thesis
    by blast
qed

end
